theory Spec2Isabelle
  imports Complex_Main "HOL-Library.Word" "HOL-Library.Log_Nat"
begin

section \<open>Machine types\<close>

type_synonym uint8_t = "8 word"
type_synonym uint16_t = "16 word"

section \<open>The C type float (IEEE 754 binary32)\<close>

text \<open>
  Every finite binary32 value is a multiple of \<open>2^-149\<close>. A finite value is kept as its
  sign bit and its magnitude counted in steps of \<open>2^-149\<close>, so \<open>1.0f\<close> is
  \<open>Finite False (2^149)\<close> and \<open>-0.0f\<close> is \<open>Finite True 0\<close>. All arithmetic below is
  integer arithmetic on these magnitudes and therefore exact.
\<close>

datatype float32 = Finite bool nat | Infinity bool | NaN

definition ONE_F32 :: nat where
  "ONE_F32 = 2 ^ 149"

text \<open>A magnitude is a binary32 value when it is below \<open>2^128\<close> and fits 24 significant bits.\<close>

definition is_binary32_magnitude :: "nat \<Rightarrow> bool" where
  "is_binary32_magnitude m = (m < 2 ^ 277 \<and> m mod 2 ^ (floorlog 2 m - 24) = 0)"

text \<open>
  Rounding of the exact quotient \<open>n / u\<close> to an integer, to nearest, ties to even.
\<close>

definition round_nearest_even :: "nat \<Rightarrow> nat \<Rightarrow> nat" where
  "round_nearest_even n u =
     (let q = n div u; r = n mod u
      in if 2 * r < u then q
         else if u < 2 * r then q + 1
         else if even q then q else q + 1)"

text \<open>
  Rounding of the exact magnitude \<open>n / d\<close> (in steps of \<open>2^-149\<close>) to 24 significant bits:
  a magnitude of \<open>L > 24\<close> bits is rounded to a multiple of \<open>2^(L - 24)\<close>, a smaller one
  (the lowest normal binade and the subnormals) to a multiple of one step.
\<close>

definition round_magnitude :: "nat \<Rightarrow> nat \<Rightarrow> nat" where
  "round_magnitude n d =
     (let sh = floorlog 2 (n div d) - 24
      in round_nearest_even n (d * 2 ^ sh) * 2 ^ sh)"

definition round_binary32 :: "bool \<Rightarrow> nat \<Rightarrow> nat \<Rightarrow> float32" where
  "round_binary32 s n d =
     (let m = round_magnitude n d
      in if m < 2 ^ 277 then Finite s m else Infinity s)"

text \<open>A decimal literal \<open>p/q\<close> with suffix \<open>f\<close>: the nearest binary32 value.\<close>

definition float_literal :: "nat \<Rightarrow> nat \<Rightarrow> float32" where
  "float_literal p q = round_binary32 False (p * ONE_F32) q"

fun fneg :: "float32 \<Rightarrow> float32" where
  "fneg (Finite s m) = Finite (\<not> s) m"
| "fneg (Infinity s) = Infinity (\<not> s)"
| "fneg NaN = NaN"

definition signed_steps :: "bool \<Rightarrow> nat \<Rightarrow> int" where
  "signed_steps s m = (if s then - int m else int m)"

text \<open>The comparisons of C on float: every comparison with a NaN is false.\<close>

fun flt :: "float32 \<Rightarrow> float32 \<Rightarrow> bool" where
  "flt (Finite s m) (Finite t n) = (signed_steps s m < signed_steps t n)"
| "flt (Finite s m) (Infinity t) = (\<not> t)"
| "flt (Infinity s) (Finite t n) = s"
| "flt (Infinity s) (Infinity t) = (s \<and> \<not> t)"
| "flt NaN y = False"
| "flt x NaN = False"

fun fle :: "float32 \<Rightarrow> float32 \<Rightarrow> bool" where
  "fle (Finite s m) (Finite t n) = (signed_steps s m \<le> signed_steps t n)"
| "fle (Finite s m) (Infinity t) = (\<not> t)"
| "fle (Infinity s) (Finite t n) = s"
| "fle (Infinity s) (Infinity t) = (s \<or> \<not> t)"
| "fle NaN y = False"
| "fle x NaN = False"

definition fgt :: "float32 \<Rightarrow> float32 \<Rightarrow> bool" where
  "fgt x y = flt y x"

fun fmul :: "float32 \<Rightarrow> float32 \<Rightarrow> float32" where
  "fmul (Finite s m) (Finite t n) = round_binary32 (s \<noteq> t) (m * n) ONE_F32"
| "fmul (Finite s m) (Infinity t) = (if m = 0 then NaN else Infinity (s \<noteq> t))"
| "fmul (Infinity s) (Finite t n) = (if n = 0 then NaN else Infinity (s \<noteq> t))"
| "fmul (Infinity s) (Infinity t) = Infinity (s \<noteq> t)"
| "fmul NaN y = NaN"
| "fmul x NaN = NaN"

fun fdiv :: "float32 \<Rightarrow> float32 \<Rightarrow> float32" where
  "fdiv (Finite s m) (Finite t n) =
     (if n = 0 then (if m = 0 then NaN else Infinity (s \<noteq> t))
      else round_binary32 (s \<noteq> t) (m * ONE_F32) n)"
| "fdiv (Finite s m) (Infinity t) = Finite (s \<noteq> t) 0"
| "fdiv (Infinity s) (Finite t n) = Infinity (s \<noteq> t)"
| "fdiv (Infinity s) (Infinity t) = NaN"
| "fdiv NaN y = NaN"
| "fdiv x NaN = NaN"

text \<open>
  Conversion of a float to an unsigned integer type with \<open>bnd\<close> values: the fraction is
  discarded (truncation towards zero); the behaviour is undefined (\<open>None\<close>) when the
  truncated value is not in the range of the type, and for infinities and NaN.
\<close>

fun float_to_unsigned :: "nat \<Rightarrow> float32 \<Rightarrow> nat option" where
  "float_to_unsigned bnd (Finite s m) =
     (let t = m div ONE_F32
      in if s \<and> t \<noteq> 0 then None else if t < bnd then Some t else None)"
| "float_to_unsigned bnd (Infinity s) = None"
| "float_to_unsigned bnd NaN = None"

definition float_to_uint8 :: "float32 \<Rightarrow> uint8_t option" where
  "float_to_uint8 x = map_option of_nat (float_to_unsigned 256 x)"

definition float_to_uint16 :: "float32 \<Rightarrow> uint16_t option" where
  "float_to_uint16 x = map_option of_nat (float_to_unsigned 65536 x)"

section \<open>Constants of SSD1306.c\<close>

definition SPI_TIMEOUT_MS :: uint16_t where "SPI_TIMEOUT_MS = 10"
definition MAX_PARAMETERS :: uint8_t where "MAX_PARAMETERS = 6"
definition MAX_DATA_SIZE :: nat where "MAX_DATA_SIZE = 1024"
definition MAX_ANGLE_DEG :: float32 where "MAX_ANGLE_DEG = float_literal 90 1"
definition MIN_ANGLE_DEG :: float32 where "MIN_ANGLE_DEG = fneg (float_literal 90 1)"
definition FLOAT_FACTOR_10 :: float32 where "FLOAT_FACTOR_10 = float_literal 10 1"
definition INT_FACTOR_10 :: nat where "INT_FACTOR_10 = 10"
definition NEG_THRESHOLD :: float32 where "NEG_THRESHOLD = fneg (float_literal 5 100)"
definition INDEX_SIGN :: nat where "INDEX_SIGN = 0"
definition INDEX_TENS :: nat where "INDEX_TENS = 1"
definition INDEX_UNITS :: nat where "INDEX_UNITS = 2"
definition INDEX_TENTHS :: nat where "INDEX_TENTHS = 4"
definition ANGLE_NB_CHARS :: nat where "ANGLE_NB_CHARS = 6"
definition NB_INIT_REGISERS :: nat where "NB_INIT_REGISERS = 8"

section \<open>Error codes\<close>

datatype SSD1306functionCodes_e =
  INIT | SEND_CMD | SEND_DATA | CLR_SCREEN | PRT_ANGLE | PRINTING_ANGLE | WAITING_DMA_RDY

datatype HAL_StatusTypeDef = HAL_OK | HAL_ERROR | HAL_BUSY | HAL_TIMEOUT

datatype errorLevel_e = ERR_WARNING | ERR_ERROR

text \<open>
  Modelled from the spec: the error-code wrapper type \<open>errorCode_u\<close> with
  \<open>createErrorCode\<close>, \<open>createErrorCodeLayer1\<close>, \<open>pushErrorCode\<close> and \<open>IS_ERROR\<close> is an
  external diagnostic facility whose source is not part of SSD1306.c. A code is either
  success or a severity, the stack of (function code, site index) tags pushed so far
  (innermost last) and the status of the HAL call that failed, if any.
\<close>

datatype errorCode_u =
  ERR_SUCCESS
| Failure errorLevel_e "(SSD1306functionCodes_e \<times> nat) list" "HAL_StatusTypeDef option"

definition createErrorCode :: "SSD1306functionCodes_e \<Rightarrow> nat \<Rightarrow> errorLevel_e \<Rightarrow> errorCode_u" where
  "createErrorCode f i lvl = Failure lvl [(f, i)] None"

definition createErrorCodeLayer1 ::
  "SSD1306functionCodes_e \<Rightarrow> nat \<Rightarrow> HAL_StatusTypeDef \<Rightarrow> errorLevel_e \<Rightarrow> errorCode_u" where
  "createErrorCodeLayer1 f i h lvl = Failure lvl [(f, i)] (Some h)"

fun pushErrorCode :: "errorCode_u \<Rightarrow> SSD1306functionCodes_e \<Rightarrow> nat \<Rightarrow> errorCode_u" where
  "pushErrorCode ERR_SUCCESS f i = ERR_SUCCESS"
| "pushErrorCode (Failure lvl st h) f i = Failure lvl ((f, i) # st) h"

fun IS_ERROR :: "errorCode_u \<Rightarrow> bool" where
  "IS_ERROR ERR_SUCCESS = False"
| "IS_ERROR (Failure lvl st h) = True"

section \<open>The HAL: GPIO lines and the SPI peripheral\<close>

datatype GPIO_PinState = GPIO_PIN_RESET | GPIO_PIN_SET

datatype pin = SSD1306_CS_Pin | SSD1306_DC_Pin | SSD1306_RST_Pin

datatype HAL_SPI_StateTypeDef =
  HAL_SPI_STATE_RESET | HAL_SPI_STATE_READY | HAL_SPI_STATE_BUSY | HAL_SPI_STATE_BUSY_TX
| HAL_SPI_STATE_BUSY_RX | HAL_SPI_STATE_BUSY_TX_RX | HAL_SPI_STATE_ERROR | HAL_SPI_STATE_ABORT

text \<open>
  The registers of \<open>SSD1306_registers.h\<close> (a header that is not part of the sources) that
  SSD1306.c names. The command byte put on the bus is the value of the enumerator; the
  model keeps the enumerator itself.
\<close>

datatype SSD1306register_e =
  SCAN_DIRECTION_N1_0 | HARDWARE_CONFIG | SEGMENT_REMAP_127 | MEMORY_ADDR_MODE
| CONTRAST_CONTROL | CLOCK_DIVIDE_RATIO | CHG_PUMP_REGULATOR | DISPLAY_ON
| COLUMN_ADDRESS | PAGE_ADDRESS

datatype spi_payload = Command SSD1306register_e | Data "uint8_t list"

text \<open>What the driver does to the hardware, in order.\<close>

datatype hal_event =
  GPIO_Write pin GPIO_PinState
| SPI_Transmit spi_payload HAL_StatusTypeDef
| SPI_Transmit_DMA "uint8_t list" nat HAL_StatusTypeDef
| SPI_DMAStop

text \<open>
  The answers of the peripheral are inputs of the model: \<open>hal_status e n\<close> is the status
  returned by the \<open>n\<close>-th call of \<open>HAL_SPI_Transmit\<close> or \<open>HAL_SPI_Transmit_DMA\<close>, and
  \<open>spi_state e n\<close> the answer to the \<open>n\<close>-th call of \<open>HAL_SPI_GetState\<close>.
\<close>

record env =
  hal_status :: "nat \<Rightarrow> HAL_StatusTypeDef"
  spi_state :: "nat \<Rightarrow> HAL_SPI_StateTypeDef"

datatype screenState = ST_IDLE | ST_PRINTING_ANGLE | ST_WAITING_FOR_TX_DONE

text \<open>
  The state variables of SSD1306.c (\<open>_state\<close>, \<open>_screenBuffer\<close>, \<open>_nextAngle\<close>,
  \<open>_nextPage\<close>, \<open>_nextColumn\<close>, \<open>screenTimer_ms\<close>) together with the hardware the driver
  owns: the level of its three GPIO lines, the record of its HAL calls and the number of
  answers it has consumed.
\<close>

record driver =
  state :: screenState
  screenBuffer :: "uint8_t list"
  nextAngle :: float32
  nextPage :: uint8_t
  nextColumn :: uint8_t
  screenTimer_ms :: uint16_t
  pins :: "pin \<Rightarrow> GPIO_PinState"
  trace :: "hal_event list"
  hal_calls :: nat
  state_polls :: nat

definition HAL_GPIO_WritePin :: "pin \<Rightarrow> GPIO_PinState \<Rightarrow> driver \<Rightarrow> driver" where
  "HAL_GPIO_WritePin p v d = d\<lparr>pins := (pins d)(p := v), trace := trace d @ [GPIO_Write p v]\<rparr>"

definition HAL_SPI_Transmit :: "env \<Rightarrow> spi_payload \<Rightarrow> driver \<Rightarrow> HAL_StatusTypeDef \<times> driver" where
  "HAL_SPI_Transmit e p d =
     (let r = hal_status e (hal_calls d)
      in (r, d\<lparr>trace := trace d @ [SPI_Transmit p r], hal_calls := Suc (hal_calls d)\<rparr>))"

definition HAL_SPI_Transmit_DMA ::
  "env \<Rightarrow> uint8_t list \<Rightarrow> nat \<Rightarrow> driver \<Rightarrow> HAL_StatusTypeDef \<times> driver" where
  "HAL_SPI_Transmit_DMA e buf size' d =
     (let r = hal_status e (hal_calls d)
      in (r, d\<lparr>trace := trace d @ [SPI_Transmit_DMA (take size' buf) size' r],
                hal_calls := Suc (hal_calls d)\<rparr>))"

definition HAL_SPI_DMAStop :: "driver \<Rightarrow> driver" where
  "HAL_SPI_DMAStop d = d\<lparr>trace := trace d @ [SPI_DMAStop]\<rparr>"

definition HAL_SPI_GetState :: "env \<Rightarrow> driver \<Rightarrow> HAL_SPI_StateTypeDef \<times> driver" where
  "HAL_SPI_GetState e d = (spi_state e (state_polls d), d\<lparr>state_polls := Suc (state_polls d)\<rparr>)"

definition SSD1306_ENABLE_SPI :: "driver \<Rightarrow> driver" where
  "SSD1306_ENABLE_SPI = HAL_GPIO_WritePin SSD1306_CS_Pin GPIO_PIN_RESET"

definition SSD1306_DISABLE_SPI :: "driver \<Rightarrow> driver" where
  "SSD1306_DISABLE_SPI = HAL_GPIO_WritePin SSD1306_CS_Pin GPIO_PIN_SET"

definition SSD1306_SET_COMMAND :: "driver \<Rightarrow> driver" where
  "SSD1306_SET_COMMAND = HAL_GPIO_WritePin SSD1306_DC_Pin GPIO_PIN_RESET"

definition SSD1306_SET_DATA :: "driver \<Rightarrow> driver" where
  "SSD1306_SET_DATA = HAL_GPIO_WritePin SSD1306_DC_Pin GPIO_PIN_SET"

section \<open>Transport\<close>

text \<open>
  A pointer argument is \<open>None\<close> for \<open>NULL\<close> and otherwise the bytes found at the address;
  the caller provides at least as many bytes as the size it passes.
\<close>

definition SSD1306sendCommand ::
  "env \<Rightarrow> SSD1306register_e \<Rightarrow> uint8_t list option \<Rightarrow> uint8_t \<Rightarrow> driver \<Rightarrow> errorCode_u \<times> driver" where
  "SSD1306sendCommand e regNumber parameters nbParameters d =
     (if MAX_PARAMETERS < nbParameters then (createErrorCode SEND_CMD 1 ERR_WARNING, d)
      else
        (case HAL_SPI_Transmit e (Command regNumber) (SSD1306_ENABLE_SPI (SSD1306_SET_COMMAND d)) of
          (HALresult, d1) \<Rightarrow>
            if HALresult \<noteq> HAL_OK
            then (createErrorCodeLayer1 SEND_CMD 2 HALresult ERR_ERROR, SSD1306_DISABLE_SPI d1)
            else
              (case parameters of
                None \<Rightarrow> (ERR_SUCCESS, SSD1306_DISABLE_SPI d1)
              | Some ps \<Rightarrow>
                  if nbParameters = 0 then (ERR_SUCCESS, SSD1306_DISABLE_SPI d1)
                  else
                    (case HAL_SPI_Transmit e (Data (take (unat nbParameters) ps)) d1 of
                      (HALresult2, d2) \<Rightarrow>
                        (if HALresult2 \<noteq> HAL_OK
                         then createErrorCodeLayer1 SEND_CMD 3 HALresult2 ERR_ERROR
                         else ERR_SUCCESS,
                         SSD1306_DISABLE_SPI d2)))))"

definition SSD1306sendData ::
  "env \<Rightarrow> uint8_t list option \<Rightarrow> uint16_t \<Rightarrow> driver \<Rightarrow> errorCode_u \<times> driver" where
  "SSD1306sendData e values size' d =
     (case values of
        None \<Rightarrow> (ERR_SUCCESS, d)
      | Some vs \<Rightarrow>
          if size' = 0 then (ERR_SUCCESS, d)
          else if MAX_DATA_SIZE < unat size' then (createErrorCode SEND_DATA 1 ERR_WARNING, d)
          else
            (case HAL_SPI_Transmit e (Data (take (unat size') vs)) (SSD1306_ENABLE_SPI (SSD1306_SET_DATA d)) of
              (HALresult, d1) \<Rightarrow>
                (if HALresult \<noteq> HAL_OK
                 then createErrorCodeLayer1 SEND_DATA 2 HALresult ERR_ERROR
                 else ERR_SUCCESS,
                 SSD1306_DISABLE_SPI d1)))"

section \<open>The request API\<close>

definition isScreenReady :: "driver \<Rightarrow> bool" where
  "isScreenReady d = (state d = ST_IDLE)"

definition SSD1306_printAngle ::
  "float32 \<Rightarrow> uint8_t \<Rightarrow> uint8_t \<Rightarrow> driver \<Rightarrow> errorCode_u \<times> driver" where
  "SSD1306_printAngle angle page column d =
     (if flt angle MIN_ANGLE_DEG \<or> fgt angle MAX_ANGLE_DEG
      then (createErrorCode PRT_ANGLE 1 ERR_WARNING, d)
      else (ERR_SUCCESS,
            d\<lparr>nextAngle := angle, nextPage := page, nextColumn := column,
              state := ST_PRINTING_ANGLE\<rparr>))"

section \<open>The font table\<close>

text \<open>
  Modelled from the spec: \<open>numbersVerdana16.h\<close> is not part of the sources. It declares the
  dimensions of the table and the glyph indexes: 14 glyphs of 11 columns on 2 pages
  (22 bytes each), indexes 0 to 9 for the digits, 10 for the decimal point, 11 for plus,
  12 for minus and 13 for the degree mark.
\<close>

definition VERDANA_CHAR_WIDTH :: nat where "VERDANA_CHAR_WIDTH = 11"
definition VERDANA_NB_PAGES :: nat where "VERDANA_NB_PAGES = 2"
definition VERDANA_NB_BYTES_CHAR :: nat where "VERDANA_NB_BYTES_CHAR = 22"
definition NB_NUMBERS :: nat where "NB_NUMBERS = 14"
definition INDEX_DOT :: uint8_t where "INDEX_DOT = 10"
definition INDEX_PLUS :: uint8_t where "INDEX_PLUS = 11"
definition INDEX_MINUS :: uint8_t where "INDEX_MINUS = 12"
definition INDEX_DEG :: uint8_t where "INDEX_DEG = 13"

text \<open>The rows of numbersVerdana16.c, in the order of their indexes.\<close>

definition verdana_16ptNumbers :: "uint8_t list list" where
  "verdana_16ptNumbers =
    [
     [0xF0, 0xFC, 0x0E, 0x07, 0x03, 0x03, 0x03, 0x07, 0x0E, 0xFC, 0xF0,
      0x0F, 0x3F, 0x70, 0xE0, 0xC0, 0xC0, 0xC0, 0xE0, 0x70, 0x3F, 0x0F],
     [0x00, 0x00, 0x0C, 0x0C, 0x0C, 0xFF, 0xFF, 0x00, 0x00, 0x00, 0x00,
      0x00, 0x00, 0xC0, 0xC0, 0xC0, 0xFF, 0xFF, 0xC0, 0xC0, 0xC0, 0x00],
     [0x00, 0x06, 0x03, 0x03, 0x03, 0x03, 0x03, 0x87, 0xFE, 0x7C, 0x00,
      0x00, 0xE0, 0xF0, 0xF8, 0xDC, 0xCE, 0xC7, 0xC3, 0xC0, 0xC0, 0xC0],
     [0x00, 0x06, 0x03, 0x03, 0xC3, 0xC3, 0xC3, 0xE7, 0x3E, 0x1C, 0x00,
      0x00, 0x60, 0xC0, 0xC0, 0xC0, 0xC0, 0xC0, 0x61, 0x7F, 0x1E, 0x00],
     [0x00, 0x80, 0xC0, 0xF0, 0x38, 0x1C, 0x0E, 0xFF, 0xFF, 0x00, 0x00,
      0x07, 0x07, 0x07, 0x06, 0x06, 0x06, 0x06, 0xFF, 0xFF, 0x06, 0x06],
     [0x00, 0x00, 0xFF, 0xFF, 0xC3, 0xC3, 0xC3, 0xC3, 0xC3, 0x83, 0x03,
      0x00, 0x60, 0xC0, 0xC0, 0xC0, 0xC0, 0xC0, 0xC0, 0x61, 0x7F, 0x1F],
     [0xE0, 0xF8, 0x9C, 0xC6, 0xC7, 0xC3, 0xC3, 0xC3, 0x83, 0x80, 0x00,
      0x0F, 0x3F, 0x71, 0xE0, 0xC0, 0xC0, 0xC0, 0xC0, 0x61, 0x3F, 0x1F],
     [0x00, 0x03, 0x03, 0x03, 0x03, 0x03, 0x03, 0xC3, 0xF3, 0x3F, 0x0F,
      0x00, 0x00, 0x80, 0xE0, 0xF8, 0x3E, 0x0F, 0x03, 0x00, 0x00, 0x00],
     [0x3C, 0x7E, 0x66, 0xC3, 0xC3, 0x83, 0x83, 0xC3, 0x46, 0x7E, 0x3C,
      0x3E, 0x7F, 0x61, 0xC0, 0xC0, 0xC0, 0xC1, 0xC1, 0x63, 0x7F, 0x1E],
     [0xF8, 0xFC, 0x86, 0x03, 0x03, 0x03, 0x03, 0x07, 0x8E, 0xFC, 0xF0,
      0x00, 0x01, 0xC1, 0xC3, 0xC3, 0xC3, 0xE3, 0x63, 0x39, 0x1F, 0x07],
     [0x00, 0x00, 0x00, 0x00, 0x00, 0x00, 0x00, 0x00, 0x00, 0x00, 0x00,
      0x00, 0x00, 0x00, 0x00, 0x00, 0xE0, 0xE0, 0x00, 0x00, 0x00, 0x00],
     [0x00, 0x00, 0x00, 0x00, 0xC0, 0xC0, 0x00, 0x00, 0x00, 0x00, 0x00,
      0x0C, 0x0C, 0x0C, 0x0C, 0xFF, 0xFF, 0x0C, 0x0C, 0x0C, 0x0C, 0x00],
     [0x00, 0x00, 0x00, 0x00, 0x00, 0x00, 0x00, 0x00, 0x00, 0x00, 0x00,
      0x00, 0x00, 0x00, 0x03, 0x03, 0x03, 0x03, 0x03, 0x03, 0x00, 0x00],
     [0x00, 0x00, 0x3C, 0x7E, 0xE7, 0xC3, 0xC3, 0xE7, 0x7E, 0x3C, 0x00,
      0x00, 0x00, 0x00, 0x00, 0x00, 0x00, 0x00, 0x00, 0x00, 0x00, 0x00]
    ]"

section \<open>The state machine\<close>

definition stIdle :: "driver \<Rightarrow> errorCode_u \<times> driver" where
  "stIdle d = (ERR_SUCCESS, d)"

text \<open>
  Lines 317 to 326 of SSD1306.c: the sign and the three digits of the angle. The result
  is the array \<open>charIndexes\<close> and the new value of \<open>_nextAngle\<close>, or \<open>None\<close> when a
  conversion of a float to an integer type has undefined behaviour.
\<close>

definition angle_charIndexes :: "float32 \<Rightarrow> (uint8_t list \<times> float32) option" where
  "angle_charIndexes a =
     (let charIndexes = [INDEX_PLUS, 0, 0, INDEX_DOT, 0, INDEX_DEG];
          negative = flt a NEG_THRESHOLD;
          charIndexes1 = (if negative then charIndexes[INDEX_SIGN := INDEX_MINUS] else charIndexes);
          angle = (if negative then fneg a else a)
      in case float_to_uint8 (fdiv angle FLOAT_FACTOR_10) of
           None \<Rightarrow> None
         | Some tens \<Rightarrow>
             (case float_to_uint8 angle of
                None \<Rightarrow> None
              | Some units \<Rightarrow>
                  (case float_to_uint16 (fmul angle FLOAT_FACTOR_10) of
                     None \<Rightarrow> None
                   | Some tenths \<Rightarrow>
                       Some (charIndexes1
                               [INDEX_TENS := tens,
                                INDEX_UNITS := units mod of_nat INT_FACTOR_10,
                                INDEX_TENTHS := ucast (tenths mod of_nat INT_FACTOR_10)],
                             angle))))"

text \<open>The body of the innermost loop: \<open>*iterator = ...; iterator++\<close>.\<close>

definition put_byte :: "uint8_t \<Rightarrow> nat \<times> uint8_t list \<Rightarrow> nat \<times> uint8_t list" where
  "put_byte b = (\<lambda>(iterator, buf). (Suc iterator, buf[iterator := b]))"

text \<open>
  Lines 328 to 336: the three nested loops over the page, the character and the column,
  writing through \<open>iterator\<close>, which starts at the first byte of \<open>_screenBuffer\<close>.
\<close>

definition fill_buffer :: "uint8_t list \<Rightarrow> uint8_t list \<Rightarrow> nat \<times> uint8_t list" where
  "fill_buffer charIndexes buf =
     fold (\<lambda>page.
       fold (\<lambda>character.
         fold (\<lambda>column.
           put_byte (verdana_16ptNumbers ! unat (charIndexes ! character)
                       ! (VERDANA_CHAR_WIDTH * page + column)))
           [0..<VERDANA_CHAR_WIDTH])
         [0..<ANGLE_NB_CHARS])
       [0..<VERDANA_NB_PAGES]
       (0, buf)"

text \<open>
  The state in which the screen is printing an angle label. \<open>None\<close> is undefined
  behaviour: a float out of the range of the integer type it is converted to, or a
  character index beyond the font table. The loops use \<open>_nextPage\<close> and \<open>_nextColumn\<close>
  as their counters and leave them at their bounds. The result of the PAGE_ADDRESS
  command is not assigned, so the test after it reads \<open>result\<close> again.
\<close>

definition stPrintingAngle :: "env \<Rightarrow> driver \<Rightarrow> (errorCode_u \<times> driver) option" where
  "stPrintingAngle e d =
     (let limitColumns = [nextColumn d, nextColumn d + of_nat (VERDANA_CHAR_WIDTH * 6) - 1];
          limitPages = [nextPage d, nextPage d + 1]
      in case angle_charIndexes (nextAngle d) of
           None \<Rightarrow> None
         | Some (charIndexes, angle) \<Rightarrow>
             if \<not> list_all (\<lambda>i. unat i < NB_NUMBERS) charIndexes then None
             else
               (case SSD1306sendCommand e COLUMN_ADDRESS (Some limitColumns) 2
                       (d\<lparr>nextAngle := angle,
                          screenBuffer := snd (fill_buffer charIndexes (screenBuffer d)),
                          nextPage := of_nat VERDANA_NB_PAGES,
                          nextColumn := of_nat VERDANA_CHAR_WIDTH\<rparr>) of
                  (result, d1) \<Rightarrow>
                    if IS_ERROR result
                    then Some (pushErrorCode result PRINTING_ANGLE 1, d1\<lparr>state := ST_IDLE\<rparr>)
                    else
                      (case SSD1306sendCommand e PAGE_ADDRESS (Some limitPages) 2 d1 of
                         (unused, d2) \<Rightarrow>
                           if IS_ERROR result
                           then Some (pushErrorCode result PRINTING_ANGLE 2, d2\<lparr>state := ST_IDLE\<rparr>)
                           else
                             (let d3 = (SSD1306_ENABLE_SPI (SSD1306_SET_DATA d2))
                                          \<lparr>screenTimer_ms := SPI_TIMEOUT_MS\<rparr>
                              in case HAL_SPI_Transmit_DMA e (screenBuffer d3)
                                        (ANGLE_NB_CHARS * VERDANA_NB_BYTES_CHAR) d3 of
                                   (HALresult, d4) \<Rightarrow>
                                     if HALresult \<noteq> HAL_OK
                                     then Some (createErrorCodeLayer1 PRINTING_ANGLE 3 HALresult ERR_ERROR,
                                                d4\<lparr>state := ST_IDLE\<rparr>)
                                     else Some (ERR_SUCCESS, d4\<lparr>state := ST_WAITING_FOR_TX_DONE\<rparr>)))))"

definition stWaitingForTXdone :: "env \<Rightarrow> driver \<Rightarrow> errorCode_u \<times> driver" where
  "stWaitingForTXdone e d =
     (if screenTimer_ms d = 0
      then (createErrorCode WAITING_DMA_RDY 1 ERR_ERROR,
            (HAL_SPI_DMAStop (SSD1306_DISABLE_SPI d))\<lparr>state := ST_IDLE\<rparr>)
      else
        (case HAL_SPI_GetState e d of
           (st, d1) \<Rightarrow>
             if st \<noteq> HAL_SPI_STATE_READY then (ERR_SUCCESS, d1)
             else (ERR_SUCCESS, (SSD1306_DISABLE_SPI d1)\<lparr>state := ST_IDLE\<rparr>)))"

definition SSD1306update :: "env \<Rightarrow> driver \<Rightarrow> (errorCode_u \<times> driver) option" where
  "SSD1306update e d =
     (case state d of
        ST_IDLE \<Rightarrow> Some (stIdle d)
      | ST_PRINTING_ANGLE \<Rightarrow> stPrintingAngle e d
      | ST_WAITING_FOR_TX_DONE \<Rightarrow> Some (stWaitingForTXdone e d))"

section \<open>Initialisation and clear\<close>

definition SSD1306clearScreen :: "env \<Rightarrow> driver \<Rightarrow> errorCode_u \<times> driver" where
  "SSD1306clearScreen e d =
     (let limitColumns = [0, 127]; limitPages = [0, 31]
      in case SSD1306sendCommand e COLUMN_ADDRESS (Some limitColumns) 2 d of
           (result, d1) \<Rightarrow>
             if IS_ERROR result then (pushErrorCode result CLR_SCREEN 1, d1)
             else
               (case SSD1306sendCommand e PAGE_ADDRESS (Some limitPages) 2 d1 of
                  (result2, d2) \<Rightarrow>
                    if IS_ERROR result2 then (pushErrorCode result2 CLR_SCREEN 2, d2)
                    else
                      (case SSD1306sendData e (Some (screenBuffer d2)) (of_nat MAX_DATA_SIZE) d2 of
                         (result3, d3) \<Rightarrow>
                           if IS_ERROR result3 then (pushErrorCode result3 CLR_SCREEN 3, d3)
                           else (ERR_SUCCESS, d3))))"

record SSD1306init_t =
  reg :: SSD1306register_e
  nbParameters :: uint8_t
  value_p :: uint8_t

text \<open>
  The parameter bytes of the initialisation are macros of \<open>SSD1306_registers.h\<close>, which is
  not part of the sources; they are parameters of the model.
\<close>

record register_values =
  SSD_PIN_CONFIG_ALT :: uint8_t
  SSD_COM_REMAP_DISABLE :: uint8_t
  SSD_HORIZONTAL_ADDR :: uint8_t
  SSD_CONTRAST_HIGHEST :: uint8_t
  SSD_CLOCK_FREQ_MID :: uint8_t
  SSD_CLOCK_DIVIDER_1 :: uint8_t
  SSD_ENABLE_CHG_PUMP :: uint8_t

definition initCommands :: "register_values \<Rightarrow> SSD1306init_t list" where
  "initCommands k =
     [\<lparr>reg = SCAN_DIRECTION_N1_0, nbParameters = 0, value_p = 0x00\<rparr>,
      \<lparr>reg = HARDWARE_CONFIG, nbParameters = 1,
         value_p = or (SSD_PIN_CONFIG_ALT k) (SSD_COM_REMAP_DISABLE k)\<rparr>,
      \<lparr>reg = SEGMENT_REMAP_127, nbParameters = 0, value_p = 0x00\<rparr>,
      \<lparr>reg = MEMORY_ADDR_MODE, nbParameters = 1, value_p = SSD_HORIZONTAL_ADDR k\<rparr>,
      \<lparr>reg = CONTRAST_CONTROL, nbParameters = 1, value_p = SSD_CONTRAST_HIGHEST k\<rparr>,
      \<lparr>reg = CLOCK_DIVIDE_RATIO, nbParameters = 1,
         value_p = or (SSD_CLOCK_FREQ_MID k) (SSD_CLOCK_DIVIDER_1 k)\<rparr>,
      \<lparr>reg = CHG_PUMP_REGULATOR, nbParameters = 1, value_p = SSD_ENABLE_CHG_PUMP k\<rparr>,
      \<lparr>reg = DISPLAY_ON, nbParameters = 0, value_p = 0x00\<rparr>]"

text \<open>
  The loop of \<open>SSD1306initialise\<close> over the entries that are left; it returns at the first
  command that fails, with the error already tagged \<open>(INIT, 1)\<close>.
\<close>

fun send_initCommands :: "env \<Rightarrow> SSD1306init_t list \<Rightarrow> driver \<Rightarrow> errorCode_u \<times> driver" where
  "send_initCommands e [] d = (ERR_SUCCESS, d)"
| "send_initCommands e (c # cs) d =
     (case SSD1306sendCommand e (reg c) (Some [value_p c]) (nbParameters c) d of
        (result, d1) \<Rightarrow>
          if IS_ERROR result then (pushErrorCode result INIT 1, d1)
          else send_initCommands e cs d1)"

text \<open>The SPI handle is an opaque reference to the peripheral and is left out.\<close>

definition SSD1306initialise :: "env \<Rightarrow> register_values \<Rightarrow> driver \<Rightarrow> errorCode_u \<times> driver" where
  "SSD1306initialise e k d =
     (case send_initCommands e (initCommands k)
             (HAL_GPIO_WritePin SSD1306_RST_Pin GPIO_PIN_SET
               (HAL_GPIO_WritePin SSD1306_RST_Pin GPIO_PIN_RESET
                 (SSD1306_DISABLE_SPI d))) of
        (result, d1) \<Rightarrow>
          if IS_ERROR result then (result, d1)
          else
            (case SSD1306clearScreen e d1 of
               (result2, d2) \<Rightarrow>
                 if IS_ERROR result2 then (pushErrorCode result2 INIT 2, d2)
                 else (ERR_SUCCESS, d2)))"

section \<open>The driver at reset\<close>

text \<open>
  The initial values of the state variables: \<open>_state = stIdle\<close>, \<open>screenTimer_ms = 0\<close> and
  zero for the variables without initialiser. The levels of the GPIO lines are those the
  board set them up with.
\<close>

definition power_on :: "(pin \<Rightarrow> GPIO_PinState) \<Rightarrow> driver" where
  "power_on lines =
     \<lparr>state = ST_IDLE, screenBuffer = replicate MAX_DATA_SIZE 0, nextAngle = Finite False 0,
      nextPage = 0, nextColumn = 0, screenTimer_ms = 0, pins = lines, trace = [],
      hal_calls = 0, state_polls = 0\<rparr>"

section \<open>The specification's words\<close>

text \<open>
  The definitions of this section are not translated from the source: they state what the
  specification says, to be compared with the functions above.
\<close>

text \<open>Truncation of a float towards zero, as a magnitude.\<close>

definition ftrunc :: "float32 \<Rightarrow> nat" where
  "ftrunc x = (case x of Finite s m \<Rightarrow> m div ONE_F32 | Infinity s \<Rightarrow> 0 | NaN \<Rightarrow> 0)"

text \<open>The greatest integer below a float.\<close>

definition ffloor :: "float32 \<Rightarrow> int" where
  "ffloor x =
     (case x of Finite s m \<Rightarrow> signed_steps s m div int ONE_F32 | Infinity s \<Rightarrow> 0 | NaN \<Rightarrow> 0)"

text \<open>
  The sign slot is plus when the angle is at least the threshold, else minus; a minus
  replaces the angle by its opposite.
\<close>

definition spec_sign :: "float32 \<Rightarrow> uint8_t" where
  "spec_sign a = (if fle NEG_THRESHOLD a then INDEX_PLUS else INDEX_MINUS)"

definition spec_normalized :: "float32 \<Rightarrow> float32" where
  "spec_normalized a = (if spec_sign a = INDEX_MINUS then fneg a else a)"

text \<open>
  The six slots, the digits taken by truncation towards zero of the binary32 quotient,
  value and product.
\<close>

definition spec_slots :: "float32 \<Rightarrow> uint8_t list" where
  "spec_slots a =
     (let a' = spec_normalized a
      in [spec_sign a,
          of_nat (ftrunc (fdiv a' FLOAT_FACTOR_10)),
          of_nat (ftrunc a' mod 10),
          INDEX_DOT,
          of_nat (ftrunc (fmul a' FLOAT_FACTOR_10) mod 10),
          INDEX_DEG])"

text \<open>The six slots with the digits taken by the floor function, as integers.\<close>

definition floor_slots :: "float32 \<Rightarrow> int list" where
  "floor_slots a =
     (let a' = spec_normalized a
      in [uint (spec_sign a),
          ffloor (fdiv a' FLOAT_FACTOR_10),
          ffloor a' mod 10,
          uint INDEX_DOT,
          ffloor (fmul a' FLOAT_FACTOR_10) mod 10,
          uint INDEX_DEG])"

text \<open>
  The payload: for each page, for each of the six characters, for each column, the byte
  \<open>glyph_table[slot[char]][page * 11 + col]\<close>.
\<close>

definition spec_payload :: "uint8_t list \<Rightarrow> uint8_t list" where
  "spec_payload slots =
     concat (map (\<lambda>page.
       concat (map (\<lambda>char.
         map (\<lambda>col. verdana_16ptNumbers ! unat (slots ! char) ! (page * 11 + col)) [0..<11])
         [0..<6]))
       [0..<2])"

text \<open>
  One command transaction: DC to command, CS asserted, the register byte, the parameter
  bytes when there are some and the register byte went through, CS deasserted. \<open>r0\<close> and
  \<open>r1\<close> are the status of the two transfers.
\<close>

definition command_events ::
  "SSD1306register_e \<Rightarrow> uint8_t list \<Rightarrow> HAL_StatusTypeDef \<Rightarrow> HAL_StatusTypeDef \<Rightarrow> hal_event list" where
  "command_events r params r0 r1 =
     [GPIO_Write SSD1306_DC_Pin GPIO_PIN_RESET, GPIO_Write SSD1306_CS_Pin GPIO_PIN_RESET,
      SPI_Transmit (Command r) r0] @
     (if r0 = HAL_OK \<and> params \<noteq> [] then [SPI_Transmit (Data params) r1] else []) @
     [GPIO_Write SSD1306_CS_Pin GPIO_PIN_SET]"

text \<open>One data transaction: DC to data, CS asserted, the bytes in one transfer, CS deasserted.\<close>

definition data_events :: "uint8_t list \<Rightarrow> HAL_StatusTypeDef \<Rightarrow> hal_event list" where
  "data_events bytes r0 =
     [GPIO_Write SSD1306_DC_Pin GPIO_PIN_SET, GPIO_Write SSD1306_CS_Pin GPIO_PIN_RESET,
      SPI_Transmit (Data bytes) r0, GPIO_Write SSD1306_CS_Pin GPIO_PIN_SET]"

text \<open>The state variables after the loops of the printing state, before its transfers.\<close>

definition rasterized :: "driver \<Rightarrow> driver" where
  "rasterized d =
     d\<lparr>nextAngle := spec_normalized (nextAngle d),
       screenBuffer := spec_payload (spec_slots (nextAngle d)) @ drop 132 (screenBuffer d),
       nextPage := 2, nextColumn := 11\<rparr>"

section \<open>The millisecond tick and the runs of the driver\<close>

text \<open>
  Modelled from the spec: the interrupt handler of the 1 ms tick is not part of the
  sources. It decrements the deadline \<open>screenTimer_ms\<close> towards zero.
\<close>

definition ms_tick :: "driver \<Rightarrow> driver" where
  "ms_tick d =
     d\<lparr>screenTimer_ms := (if screenTimer_ms d = 0 then 0 else screenTimer_ms d - 1)\<rparr>"

text \<open>
  A run is a sequence of millisecond ticks and of calls of \<open>SSD1306update\<close> by the
  application, in any order; it yields the codes the calls returned.
\<close>

datatype event = MsTick | Update

fun run :: "env \<Rightarrow> event list \<Rightarrow> driver \<Rightarrow> (errorCode_u list \<times> driver) option" where
  "run e [] d = Some ([], d)"
| "run e (MsTick # evs) d = run e evs (ms_tick d)"
| "run e (Update # evs) d =
     (case SSD1306update e d of
        None \<Rightarrow> None
      | Some (r, d1) \<Rightarrow>
          (case run e evs d1 of
             None \<Rightarrow> None
           | Some (rs, d2) \<Rightarrow> Some (r # rs, d2)))"

text \<open>The super-loop of the application: on every tick, the deadline moves and then \<open>update\<close> runs.\<close>

definition loop_ticks :: "nat \<Rightarrow> event list" where
  "loop_ticks n = concat (replicate n [MsTick, Update])"

text \<open>The error of the waiting state: the deadline expired.\<close>

definition DmaTimeout :: errorCode_u where
  "DmaTimeout = createErrorCode WAITING_DMA_RDY 1 ERR_ERROR"

section \<open>Environments of the examples\<close>

text \<open>
  A peripheral whose transfers all succeed and whose DMA never completes, and one that
  answers \<open>r\<close> to its \<open>k\<close>-th transfer and succeeds otherwise.
\<close>

definition env_ok :: env where
  "env_ok = \<lparr>hal_status = (\<lambda>n. HAL_OK), spi_state = (\<lambda>n. HAL_SPI_STATE_BUSY_TX)\<rparr>"

definition env_failing_at :: "nat \<Rightarrow> HAL_StatusTypeDef \<Rightarrow> env" where
  "env_failing_at k r =
     \<lparr>hal_status = (\<lambda>n. if n = k then r else HAL_OK), spi_state = (\<lambda>n. HAL_SPI_STATE_BUSY_TX)\<rparr>"

text \<open>An angle between the threshold and zero: \<open>-0.03125f\<close>.\<close>

definition small_negative_angle :: float32 where
  "small_negative_angle = fneg (float_literal 1 32)"

text \<open>The driver after reset and one request.\<close>

definition requested :: "float32 \<Rightarrow> uint8_t \<Rightarrow> uint8_t \<Rightarrow> driver" where
  "requested a p c = snd (SSD1306_printAngle a p c (power_on (\<lambda>l. GPIO_PIN_SET)))"

text \<open>
  Values for the macros of the initialisation parameters, for the examples (those of the
  controller's datasheet).
\<close>

definition example_register_values :: register_values where
  "example_register_values =
     \<lparr>SSD_PIN_CONFIG_ALT = 0x12, SSD_COM_REMAP_DISABLE = 0x00, SSD_HORIZONTAL_ADDR = 0x00,
      SSD_CONTRAST_HIGHEST = 0xFF, SSD_CLOCK_FREQ_MID = 0x80, SSD_CLOCK_DIVIDER_1 = 0x00,
      SSD_ENABLE_CHG_PUMP = 0x14\<rparr>"

section \<open>Properties\<close>

subsection \<open>Evaluation of the float constants\<close>

lemmas f32_eval = float_literal_def round_binary32_def round_magnitude_def
  round_nearest_even_def ONE_F32_def compute_floorlog Let_def

lemma MAX_ANGLE_DEG_eq: "MAX_ANGLE_DEG = Finite False (90 * ONE_F32)"
  by (simp add: MAX_ANGLE_DEG_def f32_eval)

lemma MIN_ANGLE_DEG_eq: "MIN_ANGLE_DEG = Finite True (90 * ONE_F32)"
  by (simp add: MIN_ANGLE_DEG_def f32_eval)

lemma FLOAT_FACTOR_10_eq: "FLOAT_FACTOR_10 = Finite False (10 * ONE_F32)"
  by (simp add: FLOAT_FACTOR_10_def f32_eval)

lemma NEG_THRESHOLD_eq: "NEG_THRESHOLD = Finite True (13421773 * 2 ^ 121)"
  by (simp add: NEG_THRESHOLD_def f32_eval)

lemma fle_not_flt: "fle x y \<Longrightarrow> \<not> flt y x"
  by (cases x; cases y) (auto simp: signed_steps_def)

lemma flt_not_fle: "flt x y \<Longrightarrow> \<not> fle y x"
  by (cases x; cases y) (auto simp: signed_steps_def)

subsection \<open>Rounding stays below a representable bound\<close>

lemma round_nearest_even_le:
  assumes "0 < u" and "n \<le> h * u"
  shows "round_nearest_even n u \<le> h"
proof -
  have q: "n div u \<le> h"
    using assms by (metis div_le_mono div_mult_self_is_m)
  show ?thesis
  proof (cases "n div u = h")
    case True
    have "n = (n div u) * u + n mod u" by simp
    with True assms(2) have "n mod u = 0" by (metis add_le_same_cancel1 le_zero_eq)
    with True assms(1) show ?thesis by (simp add: round_nearest_even_def Let_def)
  next
    case False
    with q have "n div u + 1 \<le> h" by simp
    then show ?thesis by (simp add: round_nearest_even_def Let_def)
  qed
qed

lemma round_magnitude_le:
  assumes d: "0 < d" and n: "n \<le> c * 2 ^ k * d" and c: "c * 2 ^ k < 2 ^ (k + 24)"
  shows "round_magnitude n d \<le> c * 2 ^ k"
proof -
  define sh where "sh = floorlog 2 (n div d) - 24"
  have "n div d \<le> c * 2 ^ k"
    using d n by (metis div_le_mono div_mult_self_is_m)
  then have "n div d < 2 ^ (k + 24)" using c by simp
  then have "floorlog 2 (n div d) \<le> k + 24"
    by (simp add: floorlog_le_iff)
  then have shk: "sh \<le> k" by (simp add: sh_def)
  then obtain j where k: "k = sh + j" using le_Suc_ex by blast
  have "n \<le> (c * 2 ^ j) * (d * 2 ^ sh)"
    using n by (simp add: k power_add mult_ac)
  then have "round_nearest_even n (d * 2 ^ sh) \<le> c * 2 ^ j"
    using d by (intro round_nearest_even_le) simp_all
  then have "round_nearest_even n (d * 2 ^ sh) * 2 ^ sh \<le> c * 2 ^ j * 2 ^ sh"
    by simp
  then show ?thesis
    by (simp add: round_magnitude_def sh_def[symmetric] Let_def k power_add mult_ac)
qed

text \<open>Bounds in units of ONE_F32.\<close>

lemma round_magnitude_le_units:
  assumes "0 < d" and "n \<le> c * ONE_F32 * d" and "c < 2 ^ 24"
  shows "round_magnitude n d \<le> c * ONE_F32"
  unfolding ONE_F32_def
  by (rule round_magnitude_le) (use assms in \<open>simp_all add: ONE_F32_def power_add\<close>)

lemma ONE_F32_pos: "0 < ONE_F32"
  by (simp add: ONE_F32_def)

lemma div_ONE_le: "r \<le> c * ONE_F32 \<Longrightarrow> r div ONE_F32 \<le> c"
  by (metis ONE_F32_pos div_le_mono div_mult_self_is_m)

lemma fdiv10_finite:
  assumes "m \<le> 90 * ONE_F32"
  shows "fdiv (Finite s m) FLOAT_FACTOR_10 = Finite s (round_magnitude (m * ONE_F32) (10 * ONE_F32))
         \<and> round_magnitude (m * ONE_F32) (10 * ONE_F32) \<le> 9 * ONE_F32"
proof -
  have b: "round_magnitude (m * ONE_F32) (10 * ONE_F32) \<le> 9 * ONE_F32"
    by (rule round_magnitude_le_units) (use assms ONE_F32_pos in simp_all)
  have "9 * ONE_F32 < 2 ^ 277" by (simp add: ONE_F32_def)
  with b have "round_magnitude (m * ONE_F32) (10 * ONE_F32) < 2 ^ 277" by linarith
  with b show ?thesis
    using ONE_F32_pos by (simp add: FLOAT_FACTOR_10_eq round_binary32_def Let_def)
qed

lemma fmul10_finite:
  assumes "m \<le> 90 * ONE_F32"
  shows "fmul (Finite s m) FLOAT_FACTOR_10 = Finite s (round_magnitude (m * (10 * ONE_F32)) ONE_F32)
         \<and> round_magnitude (m * (10 * ONE_F32)) ONE_F32 \<le> 900 * ONE_F32"
proof -
  have b: "round_magnitude (m * (10 * ONE_F32)) ONE_F32 \<le> 900 * ONE_F32"
    by (rule round_magnitude_le_units) (use assms ONE_F32_pos in simp_all)
  have "900 * ONE_F32 < 2 ^ 277" by (simp add: ONE_F32_def)
  with b have "round_magnitude (m * (10 * ONE_F32)) ONE_F32 < 2 ^ 277" by linarith
  with b show ?thesis
    by (simp add: FLOAT_FACTOR_10_eq round_binary32_def Let_def)
qed

text \<open>Magnitudes up to that of the threshold: everything truncates to zero.\<close>

lemma small_truncates:
  assumes "m \<le> 13421773 * 2 ^ 121"
  shows "m div ONE_F32 = 0"
    and "round_magnitude (m * ONE_F32) (10 * ONE_F32) div ONE_F32 = 0"
    and "round_magnitude (m * (10 * ONE_F32)) ONE_F32 div ONE_F32 = 0"
proof -
  show "m div ONE_F32 = 0" using assms by (simp add: ONE_F32_def)
  have "round_magnitude (m * ONE_F32) (10 * ONE_F32) \<le> 1 * 2 ^ 148"
    by (rule round_magnitude_le) (use assms in \<open>simp_all add: ONE_F32_def\<close>)
  then show "round_magnitude (m * ONE_F32) (10 * ONE_F32) div ONE_F32 = 0"
    by (simp add: ONE_F32_def)
  have "round_magnitude (m * (10 * ONE_F32)) ONE_F32 \<le> 3 * 2 ^ 147"
    by (rule round_magnitude_le) (use assms in \<open>simp_all add: ONE_F32_def\<close>)
  then show "round_magnitude (m * (10 * ONE_F32)) ONE_F32 div ONE_F32 = 0"
    by (simp add: ONE_F32_def)
qed

text \<open>
  The angle the digits are taken from: at most 90, and of magnitude up to the threshold
  when its sign bit is set.
\<close>

lemma digits_of_normalized:
  assumes m: "m \<le> 90 * ONE_F32" and neg: "s \<longrightarrow> m \<le> 13421773 * 2 ^ 121"
  shows "float_to_uint8 (fdiv (Finite s m) FLOAT_FACTOR_10) =
           Some (of_nat (ftrunc (fdiv (Finite s m) FLOAT_FACTOR_10)))"
    and "ftrunc (fdiv (Finite s m) FLOAT_FACTOR_10) \<le> 9"
    and "float_to_uint8 (Finite s m) = Some (of_nat (ftrunc (Finite s m)))"
    and "ftrunc (Finite s m) \<le> 90"
    and "float_to_uint16 (fmul (Finite s m) FLOAT_FACTOR_10) =
           Some (of_nat (ftrunc (fmul (Finite s m) FLOAT_FACTOR_10)))"
    and "ftrunc (fmul (Finite s m) FLOAT_FACTOR_10) \<le> 900"
proof -
  note d = fdiv10_finite [OF m, of s] and p = fmul10_finite [OF m, of s]
  have t1: "round_magnitude (m * ONE_F32) (10 * ONE_F32) div ONE_F32 \<le> 9"
    using d by (simp add: div_ONE_le)
  have t2: "m div ONE_F32 \<le> 90" using m by (simp add: div_ONE_le)
  have t3: "round_magnitude (m * (10 * ONE_F32)) ONE_F32 div ONE_F32 \<le> 900"
    using p by (simp add: div_ONE_le)
  show "ftrunc (fdiv (Finite s m) FLOAT_FACTOR_10) \<le> 9"
    using d t1 by (simp add: ftrunc_def)
  show "ftrunc (Finite s m) \<le> 90" using t2 by (simp add: ftrunc_def)
  show "ftrunc (fmul (Finite s m) FLOAT_FACTOR_10) \<le> 900"
    using p t3 by (simp add: ftrunc_def)
  show "float_to_uint8 (fdiv (Finite s m) FLOAT_FACTOR_10) =
           Some (of_nat (ftrunc (fdiv (Finite s m) FLOAT_FACTOR_10)))"
    using d t1 small_truncates(2) [of m] neg
    by (cases s) (simp_all add: float_to_uint8_def ftrunc_def Let_def)
  show "float_to_uint8 (Finite s m) = Some (of_nat (ftrunc (Finite s m)))"
    using t2 small_truncates(1) [of m] neg
    by (cases s) (simp_all add: float_to_uint8_def ftrunc_def Let_def)
  show "float_to_uint16 (fmul (Finite s m) FLOAT_FACTOR_10) =
           Some (of_nat (ftrunc (fmul (Finite s m) FLOAT_FACTOR_10)))"
    using p t3 small_truncates(3) [of m] neg
    by (cases s) (simp_all add: float_to_uint16_def ftrunc_def Let_def)
qed

subsection \<open>The digits of an angle in range\<close>

lemma u8_of_nat_mod10: "u < 256 \<Longrightarrow> (of_nat u :: uint8_t) mod 10 = of_nat (u mod 10)"
  by (simp add: word_unat_eq_iff unat_mod unat_of_nat)

lemma u16_of_nat_mod10:
  "t < 65536 \<Longrightarrow> (ucast ((of_nat t :: uint16_t) mod 10) :: uint8_t) = of_nat (t mod 10)"
proof -
  assume t: "t < 65536"
  have "(of_nat t :: uint16_t) mod 10 = of_nat (t mod 10)"
    using t by (simp add: word_unat_eq_iff unat_mod unat_of_nat)
  moreover have "t mod 10 < 2 ^ 16"
    by (rule less_trans [of _ 10]) simp_all
  ultimately show ?thesis
    by (simp add: unsigned_of_nat take_bit_nat_eq_self)
qed

lemma in_range_cases:
  assumes "fle MIN_ANGLE_DEG a" and "fle a MAX_ANGLE_DEG"
  obtains s m where "a = Finite s m" and "m \<le> 90 * ONE_F32"
proof (cases a)
  case (Finite s m)
  with assms have "m \<le> 90 * ONE_F32"
    by (cases s) (simp_all add: MIN_ANGLE_DEG_eq MAX_ANGLE_DEG_eq signed_steps_def)
  with Finite that show ?thesis by blast
next
  case (Infinity s)
  with assms show ?thesis
    by (cases s) (simp_all add: MIN_ANGLE_DEG_eq MAX_ANGLE_DEG_eq)
next
  case NaN
  with assms show ?thesis by simp
qed

lemma spec_sign_code:
  "spec_sign (Finite s m) = (if flt (Finite s m) NEG_THRESHOLD then INDEX_MINUS else INDEX_PLUS)"
  by (auto simp: spec_sign_def NEG_THRESHOLD_eq signed_steps_def)

lemma spec_normalized_code:
  "spec_normalized (Finite s m) =
     (if flt (Finite s m) NEG_THRESHOLD then Finite False m else Finite s m)"
  by (auto simp: spec_normalized_def spec_sign_code INDEX_PLUS_def INDEX_MINUS_def
      NEG_THRESHOLD_eq signed_steps_def split: if_splits)

lemma spec_normalized_cases:
  "\<exists>s'. spec_normalized (Finite s m) = Finite s' m \<and> (s' \<longrightarrow> m \<le> 13421773 * 2 ^ 121)"
  by (auto simp: spec_normalized_code NEG_THRESHOLD_eq signed_steps_def)

lemma angle_charIndexes_in_range:
  assumes "fle MIN_ANGLE_DEG a" and "fle a MAX_ANGLE_DEG"
  shows "angle_charIndexes a = Some (spec_slots a, spec_normalized a)"
proof -
  from assms obtain s m where a: "a = Finite s m" and m: "m \<le> 90 * ONE_F32"
    by (rule in_range_cases)
  obtain s' where n: "spec_normalized (Finite s m) = Finite s' m"
    and small: "s' \<longrightarrow> m \<le> 13421773 * 2 ^ 121"
    using spec_normalized_cases [of s m] by blast
  note dg = digits_of_normalized [OF m small]
  have ang: "(if flt (Finite s m) NEG_THRESHOLD then fneg (Finite s m) else Finite s m) = Finite s' m"
    using n by (auto simp: spec_normalized_code NEG_THRESHOLD_eq signed_steps_def split: if_splits)
  have u: "(of_nat (ftrunc (Finite s' m)) :: uint8_t) mod 10 = of_nat (ftrunc (Finite s' m) mod 10)"
    using dg(4) by (intro u8_of_nat_mod10) simp
  have t: "(ucast ((of_nat (ftrunc (fmul (Finite s' m) FLOAT_FACTOR_10)) :: uint16_t) mod 10) :: uint8_t)
             = of_nat (ftrunc (fmul (Finite s' m) FLOAT_FACTOR_10) mod 10)"
    using dg(6) by (intro u16_of_nat_mod10) simp
  show ?thesis
    unfolding a angle_charIndexes_def Let_def ang
    by (simp add: dg(1,3,5) u t spec_slots_def n spec_sign_code Let_def
        INDEX_SIGN_def INDEX_TENS_def INDEX_UNITS_def INDEX_TENTHS_def INT_FACTOR_10_def)
qed

lemma spec_slots_in_table:
  assumes "fle MIN_ANGLE_DEG a" and "fle a MAX_ANGLE_DEG"
  shows "list_all (\<lambda>i. unat i < NB_NUMBERS) (spec_slots a)"
proof -
  from assms obtain s m where a: "a = Finite s m" and m: "m \<le> 90 * ONE_F32"
    by (rule in_range_cases)
  obtain s' where n: "spec_normalized (Finite s m) = Finite s' m"
    and small: "s' \<longrightarrow> m \<le> 13421773 * 2 ^ 121"
    using spec_normalized_cases [of s m] by blast
  note dg = digits_of_normalized [OF m small]
  have "unat (of_nat (ftrunc (fdiv (Finite s' m) FLOAT_FACTOR_10)) :: uint8_t) \<le> 9"
    using dg(2) by (simp add: unat_of_nat)
  moreover have "unat (of_nat (ftrunc (Finite s' m) mod 10) :: uint8_t) < 10"
    by (simp add: unat_of_nat)
  moreover have "unat (of_nat (ftrunc (fmul (Finite s' m) FLOAT_FACTOR_10) mod 10) :: uint8_t) < 10"
    by (simp add: unat_of_nat)
  ultimately show ?thesis
    by (simp add: a spec_slots_def n Let_def spec_sign_def NB_NUMBERS_def
        INDEX_PLUS_def INDEX_MINUS_def INDEX_DOT_def INDEX_DEG_def)
qed

subsection \<open>The loops of the printing state\<close>

lemma fold_put_byte:
  "it + length bs \<le> length buf \<Longrightarrow>
   fold put_byte bs (it, buf) = (it + length bs, take it buf @ bs @ drop (it + length bs) buf)"
proof (induction bs arbitrary: it buf)
  case Nil
  then show ?case by simp
next
  case (Cons b bs)
  then have it: "it < length buf" by simp
  have "fold put_byte (b # bs) (it, buf) = fold put_byte bs (Suc it, buf[it := b])"
    by (simp add: put_byte_def)
  also have "\<dots> = (Suc it + length bs,
      take (Suc it) (buf[it := b]) @ bs @ drop (Suc it + length bs) (buf[it := b]))"
    using Cons.prems by (intro Cons.IH) simp
  also have "take (Suc it) (buf[it := b]) = take it buf @ [b]"
    using it by (simp add: take_Suc_conv_app_nth)
  also have "drop (Suc it + length bs) (buf[it := b]) = drop (Suc it + length bs) buf"
    by simp
  finally show ?case by simp
qed

lemma fold_concat: "fold f (concat xss) = fold (fold f) xss"
  by (induction xss) simp_all

lemma length_spec_payload: "length (spec_payload slots) = 132"
  by (simp add: spec_payload_def length_concat comp_def sum_list_triv)

lemma fill_buffer_eq_fold: "fill_buffer charIndexes buf = fold put_byte (spec_payload charIndexes) (0, buf)"
  by (simp add: fill_buffer_def spec_payload_def fold_concat fold_map comp_def
      VERDANA_CHAR_WIDTH_def ANGLE_NB_CHARS_def VERDANA_NB_PAGES_def mult.commute)

lemma fill_buffer_eq:
  assumes "132 \<le> length buf"
  shows "fill_buffer charIndexes buf = (132, spec_payload charIndexes @ drop 132 buf)"
  using fold_put_byte [of 0 "spec_payload charIndexes" buf] assms
  by (simp add: fill_buffer_eq_fold length_spec_payload)

subsection \<open>The outcome of the printing tick\<close>

lemma limitColumns_end: "(c :: uint8_t) + 66 - 1 = c + 65"
  by simp

lemma stPrintingAngle_in_range:
  assumes "fle MIN_ANGLE_DEG (nextAngle d)" and "fle (nextAngle d) MAX_ANGLE_DEG"
    and "length (screenBuffer d) = MAX_DATA_SIZE"
  shows "stPrintingAngle e d =
     (case SSD1306sendCommand e COLUMN_ADDRESS (Some [nextColumn d, nextColumn d + 65]) 2
             (rasterized d) of
        (result, d1) \<Rightarrow>
          if IS_ERROR result
          then Some (pushErrorCode result PRINTING_ANGLE 1, d1\<lparr>state := ST_IDLE\<rparr>)
          else
            (case SSD1306sendCommand e PAGE_ADDRESS (Some [nextPage d, nextPage d + 1]) 2 d1 of
               (unused, d2) \<Rightarrow>
                 (let d3 = (SSD1306_ENABLE_SPI (SSD1306_SET_DATA d2))\<lparr>screenTimer_ms := 10\<rparr>
                  in case HAL_SPI_Transmit_DMA e (screenBuffer d3) 132 d3 of
                       (HALresult, d4) \<Rightarrow>
                         if HALresult \<noteq> HAL_OK
                         then Some (createErrorCodeLayer1 PRINTING_ANGLE 3 HALresult ERR_ERROR,
                                    d4\<lparr>state := ST_IDLE\<rparr>)
                         else Some (ERR_SUCCESS, d4\<lparr>state := ST_WAITING_FOR_TX_DONE\<rparr>))))"
proof -
  have buf: "132 \<le> length (screenBuffer d)"
    using assms(3) by (simp add: MAX_DATA_SIZE_def)
  show ?thesis
    unfolding stPrintingAngle_def Let_def
    by (simp add: angle_charIndexes_in_range [OF assms(1,2)] spec_slots_in_table [OF assms(1,2)]
        fill_buffer_eq [OF buf] rasterized_def limitColumns_end VERDANA_CHAR_WIDTH_def
        VERDANA_NB_PAGES_def
        ANGLE_NB_CHARS_def VERDANA_NB_BYTES_CHAR_def SPI_TIMEOUT_MS_def
        cong: if_cong)
qed

lemmas hal_defs = HAL_GPIO_WritePin_def HAL_SPI_Transmit_def HAL_SPI_Transmit_DMA_def
  HAL_SPI_DMAStop_def HAL_SPI_GetState_def SSD1306_ENABLE_SPI_def SSD1306_DISABLE_SPI_def
  SSD1306_SET_COMMAND_def SSD1306_SET_DATA_def

lemma sendCommand_effect:
  assumes "nb \<le> MAX_PARAMETERS" and "unat nb \<le> length ps"
  shows "SSD1306sendCommand e r (Some ps) nb d =
     (if hal_status e (hal_calls d) \<noteq> HAL_OK
      then createErrorCodeLayer1 SEND_CMD 2 (hal_status e (hal_calls d)) ERR_ERROR
      else if nb \<noteq> 0 \<and> hal_status e (Suc (hal_calls d)) \<noteq> HAL_OK
      then createErrorCodeLayer1 SEND_CMD 3 (hal_status e (Suc (hal_calls d))) ERR_ERROR
      else ERR_SUCCESS,
      d\<lparr>pins := (pins d)(SSD1306_DC_Pin := GPIO_PIN_RESET, SSD1306_CS_Pin := GPIO_PIN_SET),
        trace := trace d @ command_events r (take (unat nb) ps)
                   (hal_status e (hal_calls d)) (hal_status e (Suc (hal_calls d))),
        hal_calls := (if hal_status e (hal_calls d) = HAL_OK \<and> nb \<noteq> 0
                      then Suc (Suc (hal_calls d)) else Suc (hal_calls d))\<rparr>)"
proof -
  have "\<not> MAX_PARAMETERS < nb" using assms(1) by simp
  moreover have "nb \<noteq> 0 \<Longrightarrow> take (unat nb) ps \<noteq> []"
    using assms(2) by (auto simp: unat_eq_0)
  ultimately show ?thesis
    by (auto simp: SSD1306sendCommand_def hal_defs command_events_def Let_def)
qed

lemma stPrintingAngle_outcome:
  assumes "fle MIN_ANGLE_DEG (nextAngle d)" and "fle (nextAngle d) MAX_ANGLE_DEG"
    and "length (screenBuffer d) = MAX_DATA_SIZE"
  shows "stPrintingAngle e d = Some
     (let n = hal_calls d; r0 = hal_status e n; r1 = hal_status e (Suc n);
          column_events = command_events COLUMN_ADDRESS [nextColumn d, nextColumn d + 65] r0 r1
      in if r0 \<noteq> HAL_OK \<or> r1 \<noteq> HAL_OK
         then (if r0 \<noteq> HAL_OK
               then Failure ERR_ERROR [(PRINTING_ANGLE, 1), (SEND_CMD, 2)] (Some r0)
               else Failure ERR_ERROR [(PRINTING_ANGLE, 1), (SEND_CMD, 3)] (Some r1),
               (rasterized d)
                 \<lparr>pins := (pins d)(SSD1306_DC_Pin := GPIO_PIN_RESET, SSD1306_CS_Pin := GPIO_PIN_SET),
                  trace := trace d @ column_events,
                  hal_calls := (if r0 = HAL_OK then Suc (Suc n) else Suc n),
                  state := ST_IDLE\<rparr>)
         else
           (let r2 = hal_status e (Suc (Suc n)); r3 = hal_status e (Suc (Suc (Suc n)));
                k = (if r2 = HAL_OK then Suc (Suc (Suc (Suc n))) else Suc (Suc (Suc n)));
                r4 = hal_status e k
            in (if r4 \<noteq> HAL_OK then Failure ERR_ERROR [(PRINTING_ANGLE, 3)] (Some r4)
                else ERR_SUCCESS,
                (rasterized d)
                  \<lparr>pins := (pins d)(SSD1306_DC_Pin := GPIO_PIN_SET, SSD1306_CS_Pin := GPIO_PIN_RESET),
                   trace := trace d @ column_events @
                     command_events PAGE_ADDRESS [nextPage d, nextPage d + 1] r2 r3 @
                     [GPIO_Write SSD1306_DC_Pin GPIO_PIN_SET,
                      GPIO_Write SSD1306_CS_Pin GPIO_PIN_RESET,
                      SPI_Transmit_DMA (spec_payload (spec_slots (nextAngle d))) 132 r4],
                   hal_calls := Suc k,
                   screenTimer_ms := 10,
                   state := (if r4 \<noteq> HAL_OK then ST_IDLE else ST_WAITING_FOR_TX_DONE)\<rparr>)))"
proof -
  have two: "(2 :: uint8_t) \<le> MAX_PARAMETERS" "unat (2 :: uint8_t) \<le> length [x, y]" for x y :: uint8_t
    by (simp_all add: MAX_PARAMETERS_def)
  show ?thesis
    unfolding stPrintingAngle_in_range [OF assms]
    by (simp add: sendCommand_effect [OF two] hal_defs rasterized_def Let_def
        createErrorCodeLayer1_def length_spec_payload)
qed

subsection \<open>The request API\<close>

text \<open>
  C6. The range check of \<open>SSD1306_printAngle\<close> misses one case. A NaN is not in the closed
  interval \<open>[-90.0f, 90.0f]\<close>: it is neither at least \<open>-90.0f\<close> nor at most \<open>90.0f\<close>. But
  the guard \<open>(angle < MIN_ANGLE_DEG) || (angle > MAX_ANGLE_DEG)\<close> tests the two ways of being
  outside that an ordered value has, and both comparisons are false of a NaN. So after
  reset \<open>SSD1306_printAngle(NaN, 0, 0)\<close> does not return the warning \<open>(PRT_ANGLE, 1)\<close>: it
  returns success, latches the NaN and leaves the idle state for the printing state,
  where the next \<open>SSD1306update\<close> converts the NaN to an integer, which is undefined
  behaviour.
\<close>

theorem nan_angle_is_not_rejected:
  "\<not> fle MIN_ANGLE_DEG NaN \<and> \<not> fle NaN MAX_ANGLE_DEG \<and>
   state (power_on (\<lambda>l. GPIO_PIN_SET)) = ST_IDLE \<and>
   SSD1306_printAngle NaN 0 0 (power_on (\<lambda>l. GPIO_PIN_SET)) \<noteq>
     (createErrorCode PRT_ANGLE 1 ERR_WARNING, power_on (\<lambda>l. GPIO_PIN_SET)) \<and>
   SSD1306_printAngle NaN 0 0 (power_on (\<lambda>l. GPIO_PIN_SET)) =
     (ERR_SUCCESS,
      (power_on (\<lambda>l. GPIO_PIN_SET))
        \<lparr>nextAngle := NaN, nextPage := 0, nextColumn := 0, state := ST_PRINTING_ANGLE\<rparr>) \<and>
   SSD1306update env_ok (requested NaN 0 0) = None"
  by (simp add: SSD1306_printAngle_def fgt_def MAX_ANGLE_DEG_eq MIN_ANGLE_DEG_eq requested_def
      power_on_def createErrorCode_def SSD1306update_def stPrintingAngle_def
      angle_charIndexes_def float_to_uint8_def Let_def)

text \<open>
  For every angle that is a number, the range check does what is expected of it:
  \<open>SSD1306_printAngle\<close> succeeds for every angle with \<open>-90.0f \<le> angle \<le> 90.0f\<close>, the two
  bounds included, and for every angle below \<open>-90.0f\<close> or above \<open>90.0f\<close> it returns the
  warning \<open>(PRT_ANGLE, 1)\<close> and the whole driver is as before: the state, the latched
  request and the record of HAL calls are unchanged, so there is no SPI traffic.
\<close>

theorem printAngle_range_check:
  "(fle MIN_ANGLE_DEG angle \<and> fle angle MAX_ANGLE_DEG \<longrightarrow>
      fst (SSD1306_printAngle angle page column d) = ERR_SUCCESS) \<and>
   (flt angle MIN_ANGLE_DEG \<or> fgt angle MAX_ANGLE_DEG \<longrightarrow>
      SSD1306_printAngle angle page column d = (createErrorCode PRT_ANGLE 1 ERR_WARNING, d))"
  by (auto simp: SSD1306_printAngle_def fgt_def dest: fle_not_flt)

theorem printAngle_range_check_witness:
  "fst (SSD1306_printAngle (float_literal 90 1) 0 0 (power_on (\<lambda>p. GPIO_PIN_SET))) = ERR_SUCCESS \<and>
   fst (SSD1306_printAngle (fneg (float_literal 90 1)) 0 0 (power_on (\<lambda>p. GPIO_PIN_SET))) = ERR_SUCCESS \<and>
   SSD1306_printAngle (float_literal 9001 100) 0 0 (power_on (\<lambda>p. GPIO_PIN_SET)) =
     (createErrorCode PRT_ANGLE 1 ERR_WARNING, power_on (\<lambda>p. GPIO_PIN_SET)) \<and>
   SSD1306_printAngle (fneg (float_literal 9001 100)) 0 0 (power_on (\<lambda>p. GPIO_PIN_SET)) =
     (createErrorCode PRT_ANGLE 1 ERR_WARNING, power_on (\<lambda>p. GPIO_PIN_SET))"
proof -
  have in1: "fle MIN_ANGLE_DEG (float_literal 90 1) \<and> fle (float_literal 90 1) MAX_ANGLE_DEG"
    by (simp add: MIN_ANGLE_DEG_eq MAX_ANGLE_DEG_eq f32_eval signed_steps_def)
  have in2: "fle MIN_ANGLE_DEG (fneg (float_literal 90 1)) \<and> fle (fneg (float_literal 90 1)) MAX_ANGLE_DEG"
    by (simp add: MIN_ANGLE_DEG_eq MAX_ANGLE_DEG_eq f32_eval signed_steps_def)
  have out1: "fgt (float_literal 9001 100) MAX_ANGLE_DEG"
    by (simp add: fgt_def MAX_ANGLE_DEG_eq f32_eval signed_steps_def)
  have out2: "flt (fneg (float_literal 9001 100)) MIN_ANGLE_DEG"
    by (simp add: MIN_ANGLE_DEG_eq f32_eval signed_steps_def)
  show ?thesis
    using printAngle_range_check [of "float_literal 90 1" 0 0 "power_on (\<lambda>p. GPIO_PIN_SET)"]
      printAngle_range_check [of "fneg (float_literal 90 1)" 0 0 "power_on (\<lambda>p. GPIO_PIN_SET)"]
      printAngle_range_check [of "float_literal 9001 100" 0 0 "power_on (\<lambda>p. GPIO_PIN_SET)"]
      printAngle_range_check [of "fneg (float_literal 9001 100)" 0 0 "power_on (\<lambda>p. GPIO_PIN_SET)"]
      in1 in2 out1 out2
    by blast
qed

text \<open>
  C10. In every driver state and for every page and column byte, \<open>SSD1306_printAngle\<close>
  with an angle in \<open>[-90.0f, 90.0f]\<close> returns success, overwrites the latched request
  with its three arguments and sets the state to printing: neither the page, nor the
  column, nor the current state is checked.
\<close>

theorem printAngle_latches_in_any_state:
  assumes "fle MIN_ANGLE_DEG angle" and "fle angle MAX_ANGLE_DEG"
  shows "SSD1306_printAngle angle page column d =
           (ERR_SUCCESS,
            d\<lparr>nextAngle := angle, nextPage := page, nextColumn := column,
              state := ST_PRINTING_ANGLE\<rparr>)"
  using assms by (auto simp: SSD1306_printAngle_def fgt_def dest: fle_not_flt)

theorem printAngle_latches_in_any_state_witness:
  "SSD1306_printAngle (float_literal 123 10) 255 255
      ((power_on (\<lambda>p. GPIO_PIN_SET))
         \<lparr>state := ST_WAITING_FOR_TX_DONE, nextAngle := float_literal 5 1, nextPage := 1,
          nextColumn := 2\<rparr>) =
   (ERR_SUCCESS,
    (power_on (\<lambda>p. GPIO_PIN_SET))
       \<lparr>state := ST_PRINTING_ANGLE, nextAngle := float_literal 123 10, nextPage := 255,
        nextColumn := 255\<rparr>)"
proof -
  have lo: "fle MIN_ANGLE_DEG (float_literal 123 10)"
    by (simp add: MIN_ANGLE_DEG_eq f32_eval signed_steps_def)
  have hi: "fle (float_literal 123 10) MAX_ANGLE_DEG"
    by (simp add: MAX_ANGLE_DEG_eq f32_eval signed_steps_def)
  show ?thesis
    using printAngle_latches_in_any_state [OF lo hi, of 255 255
      "(power_on (\<lambda>p. GPIO_PIN_SET))
         \<lparr>state := ST_WAITING_FOR_TX_DONE, nextAngle := float_literal 5 1, nextPage := 1,
          nextColumn := 2\<rparr>"]
    by (simp add: power_on_def)
qed

subsection \<open>Transport\<close>

text \<open>
  C9. \<open>SSD1306sendData\<close> returns success and leaves the driver and the hardware untouched
  when the pointer is null or the size is zero; with a buffer and a size above 1024
  (1025 and more) it returns the warning \<open>(SEND_DATA, 1)\<close>, again without any GPIO
  write or SPI transfer.
\<close>

theorem sendData_guards:
  "(values = None \<or> size' = 0 \<longrightarrow> SSD1306sendData e values size' d = (ERR_SUCCESS, d)) \<and>
   (values \<noteq> None \<and> 1024 < unat size' \<longrightarrow>
      SSD1306sendData e values size' d = (createErrorCode SEND_DATA 1 ERR_WARNING, d))"
  by (auto simp: SSD1306sendData_def MAX_DATA_SIZE_def split: option.splits)

theorem sendData_guards_witness:
  "SSD1306sendData env_ok None 5 (power_on (\<lambda>p. GPIO_PIN_SET)) =
     (ERR_SUCCESS, power_on (\<lambda>p. GPIO_PIN_SET)) \<and>
   SSD1306sendData env_ok (Some [1, 2, 3]) 0 (power_on (\<lambda>p. GPIO_PIN_SET)) =
     (ERR_SUCCESS, power_on (\<lambda>p. GPIO_PIN_SET)) \<and>
   SSD1306sendData env_ok (Some (replicate 1025 0)) 1025 (power_on (\<lambda>p. GPIO_PIN_SET)) =
     (createErrorCode SEND_DATA 1 ERR_WARNING, power_on (\<lambda>p. GPIO_PIN_SET))"
  using sendData_guards [of None 5 env_ok "power_on (\<lambda>p. GPIO_PIN_SET)"]
    sendData_guards [of "Some [1, 2, 3]" 0 env_ok "power_on (\<lambda>p. GPIO_PIN_SET)"]
    sendData_guards [of "Some (replicate 1025 0)" 1025 env_ok "power_on (\<lambda>p. GPIO_PIN_SET)"]
  by simp

subsection \<open>The claims on the printing state\<close>

lemma printAngle_accepts:
  assumes "fle MIN_ANGLE_DEG angle" and "fle angle MAX_ANGLE_DEG"
  shows "SSD1306_printAngle angle page column d =
           (ERR_SUCCESS,
            d\<lparr>nextAngle := angle, nextPage := page, nextColumn := column,
              state := ST_PRINTING_ANGLE\<rparr>)"
  using assms by (auto simp: SSD1306_printAngle_def fgt_def dest: fle_not_flt)

lemma requested_fields:
  assumes "fle MIN_ANGLE_DEG a" and "fle a MAX_ANGLE_DEG"
  shows "nextAngle (requested a p c) = a" and "nextPage (requested a p c) = p"
    and "nextColumn (requested a p c) = c" and "state (requested a p c) = ST_PRINTING_ANGLE"
    and "screenBuffer (requested a p c) = replicate 1024 0"
    and "trace (requested a p c) = []" and "hal_calls (requested a p c) = 0"
    and "pins (requested a p c) = (\<lambda>l. GPIO_PIN_SET)"
    and "length (screenBuffer (requested a p c)) = MAX_DATA_SIZE"
  by (simp_all add: requested_def printAngle_accepts [OF assms] power_on_def MAX_DATA_SIZE_def)

lemma in_range_12_3:
  "fle MIN_ANGLE_DEG (float_literal 123 10)" "fle (float_literal 123 10) MAX_ANGLE_DEG"
  by (simp_all add: MIN_ANGLE_DEG_eq MAX_ANGLE_DEG_eq f32_eval signed_steps_def)

lemma in_range_minus_1_32:
  "fle MIN_ANGLE_DEG small_negative_angle" "fle small_negative_angle MAX_ANGLE_DEG"
  by (simp_all add: small_negative_angle_def MIN_ANGLE_DEG_eq MAX_ANGLE_DEG_eq f32_eval signed_steps_def)

lemma in_range_minus_0_1:
  "fle MIN_ANGLE_DEG (fneg (float_literal 10 100))" "fle (fneg (float_literal 10 100)) MAX_ANGLE_DEG"
  by (simp_all add: MIN_ANGLE_DEG_eq MAX_ANGLE_DEG_eq f32_eval signed_steps_def)

lemmas slots_defs = spec_slots_def spec_normalized_def spec_sign_def NEG_THRESHOLD_eq
  FLOAT_FACTOR_10_eq ftrunc_def f32_eval signed_steps_def
  INDEX_PLUS_def INDEX_MINUS_def INDEX_DOT_def INDEX_DEG_def

lemma update_printing: "state d = ST_PRINTING_ANGLE \<Longrightarrow> SSD1306update e d = stPrintingAngle e d"
  by (simp add: SSD1306update_def)

lemma printing_buffer:
  assumes rng: "fle MIN_ANGLE_DEG (nextAngle d)" "fle (nextAngle d) MAX_ANGLE_DEG"
    and len: "length (screenBuffer d) = MAX_DATA_SIZE"
    and st: "state d = ST_PRINTING_ANGLE"
  shows "\<exists>r d'. SSD1306update e d = Some (r, d') \<and>
     take 132 (screenBuffer d') = spec_payload (spec_slots (nextAngle d))"
  unfolding update_printing [OF st] stPrintingAngle_outcome [OF rng len]
  by (auto simp: Let_def rasterized_def length_spec_payload)

lemma byte_add_no_wrap:
  "unat (c :: uint8_t) \<le> 190 \<Longrightarrow> unat (c + 65) = unat c + 65"
  "unat (p :: uint8_t) \<le> 254 \<Longrightarrow> unat (p + 1) = unat p + 1"
  by (simp_all add: unat_word_ariths)

text \<open>
  C7. For every latched request with an angle in range, when the transfers of the
  COLUMN_ADDRESS command and the register byte of the PAGE_ADDRESS command go through,
  the printing tick sends COLUMN_ADDRESS with the two parameters \<open>[column, column + 65]\<close>
  and then PAGE_ADDRESS with \<open>[page, page + 1]\<close>, where page and column are the latched
  values; after the tick the two variables hold the bounds 2 and 11 of the loops that
  reused them. The parameters are bytes: the sums are exact up to column 190 and page
  254, and wrap around beyond.
\<close>

theorem printing_programs_address_window:
  assumes rng: "fle MIN_ANGLE_DEG (nextAngle d)" "fle (nextAngle d) MAX_ANGLE_DEG"
    and len: "length (screenBuffer d) = MAX_DATA_SIZE"
    and st: "state d = ST_PRINTING_ANGLE"
    and ok: "hal_status e (hal_calls d) = HAL_OK" "hal_status e (Suc (hal_calls d)) = HAL_OK"
      "hal_status e (Suc (Suc (hal_calls d))) = HAL_OK"
  shows "\<exists>r d'. SSD1306update e d = Some (r, d') \<and>
     take 10 (drop (length (trace d)) (trace d')) =
       [GPIO_Write SSD1306_DC_Pin GPIO_PIN_RESET, GPIO_Write SSD1306_CS_Pin GPIO_PIN_RESET,
        SPI_Transmit (Command COLUMN_ADDRESS) HAL_OK,
        SPI_Transmit (Data [nextColumn d, nextColumn d + 65]) HAL_OK,
        GPIO_Write SSD1306_CS_Pin GPIO_PIN_SET,
        GPIO_Write SSD1306_DC_Pin GPIO_PIN_RESET, GPIO_Write SSD1306_CS_Pin GPIO_PIN_RESET,
        SPI_Transmit (Command PAGE_ADDRESS) HAL_OK,
        SPI_Transmit (Data [nextPage d, nextPage d + 1]) (hal_status e (Suc (Suc (Suc (hal_calls d))))),
        GPIO_Write SSD1306_CS_Pin GPIO_PIN_SET] \<and>
     nextPage d' = 2 \<and> nextColumn d' = 11 \<and>
     (unat (nextColumn d) \<le> 190 \<longrightarrow> unat (nextColumn d + 65) = unat (nextColumn d) + 65) \<and>
     (unat (nextPage d) \<le> 254 \<longrightarrow> unat (nextPage d + 1) = unat (nextPage d) + 1)"
  unfolding update_printing [OF st] stPrintingAngle_outcome [OF rng len]
  by (simp add: ok Let_def command_events_def rasterized_def byte_add_no_wrap)

theorem printing_programs_address_window_witness:
  "\<exists>r d'. SSD1306update env_ok (requested (float_literal 123 10) 2 10) = Some (r, d') \<and>
     take 10 (trace d') =
       [GPIO_Write SSD1306_DC_Pin GPIO_PIN_RESET, GPIO_Write SSD1306_CS_Pin GPIO_PIN_RESET,
        SPI_Transmit (Command COLUMN_ADDRESS) HAL_OK,
        SPI_Transmit (Data [10, 75]) HAL_OK,
        GPIO_Write SSD1306_CS_Pin GPIO_PIN_SET,
        GPIO_Write SSD1306_DC_Pin GPIO_PIN_RESET, GPIO_Write SSD1306_CS_Pin GPIO_PIN_RESET,
        SPI_Transmit (Command PAGE_ADDRESS) HAL_OK,
        SPI_Transmit (Data [2, 3]) HAL_OK,
        GPIO_Write SSD1306_CS_Pin GPIO_PIN_SET] \<and>
     nextPage d' = 2 \<and> nextColumn d' = 11"
proof -
  note f = requested_fields [OF in_range_12_3, of 2 10]
  have rng: "fle MIN_ANGLE_DEG (nextAngle (requested (float_literal 123 10) 2 10))"
    "fle (nextAngle (requested (float_literal 123 10) 2 10)) MAX_ANGLE_DEG"
    by (simp_all add: f in_range_12_3)
  have ok: "hal_status env_ok (hal_calls (requested (float_literal 123 10) 2 10)) = HAL_OK"
    "hal_status env_ok (Suc (hal_calls (requested (float_literal 123 10) 2 10))) = HAL_OK"
    "hal_status env_ok (Suc (Suc (hal_calls (requested (float_literal 123 10) 2 10)))) = HAL_OK"
    by (simp_all add: env_ok_def)
  show ?thesis
    using printing_programs_address_window [OF rng f(9) f(4) ok]
    by (simp add: f env_ok_def)
qed

text \<open>
  C3, as amended. For every latched request with an angle in \<open>[-90.0f, 90.0f]\<close>, the
  printing tick writes exactly 132 bytes at the start of the buffer, page by page, then
  character by character, then column by column: the bytes
  \<open>glyph_table[slot[char]][page * 11 + col]\<close> of the six slots sign, tens, units, point,
  tenths, degree, where the digits are the truncations towards zero (not the floors) of
  the binary32 values \<open>a' / 10\<close>, \<open>a'\<close> and \<open>a' * 10\<close>, the last two modulo 10.
  Every DMA transfer the tick launches has length 132 and carries these bytes, and it
  launches one whenever the COLUMN_ADDRESS command went through.
\<close>

theorem printing_payload:
  assumes rng: "fle MIN_ANGLE_DEG (nextAngle d)" "fle (nextAngle d) MAX_ANGLE_DEG"
    and len: "length (screenBuffer d) = MAX_DATA_SIZE"
    and st: "state d = ST_PRINTING_ANGLE"
  shows "\<exists>r d'. SSD1306update e d = Some (r, d') \<and>
     length (spec_payload (spec_slots (nextAngle d))) = 132 \<and>
     take 132 (screenBuffer d') = spec_payload (spec_slots (nextAngle d)) \<and>
     (\<forall>buf n s. SPI_Transmit_DMA buf n s \<in> set (drop (length (trace d)) (trace d')) \<longrightarrow>
        n = 132 \<and> buf = spec_payload (spec_slots (nextAngle d))) \<and>
     (hal_status e (hal_calls d) = HAL_OK \<and> hal_status e (Suc (hal_calls d)) = HAL_OK \<longrightarrow>
        (\<exists>s. last (trace d') = SPI_Transmit_DMA (spec_payload (spec_slots (nextAngle d))) 132 s))"
  unfolding update_printing [OF st] stPrintingAngle_outcome [OF rng len]
  by (auto simp: Let_def command_events_def rasterized_def length_spec_payload)

theorem printing_payload_witness:
  "\<exists>r d'. SSD1306update env_ok (requested (float_literal 123 10) 2 10) = Some (r, d') \<and>
     spec_slots (float_literal 123 10) = [11, 1, 2, 10, 3, 13] \<and>
     take 132 (screenBuffer d') = spec_payload [11, 1, 2, 10, 3, 13] \<and>
     take 22 (screenBuffer d') =
       [0x00, 0x00, 0x00, 0x00, 0xC0, 0xC0, 0x00, 0x00, 0x00, 0x00, 0x00,
        0x00, 0x00, 0x0C, 0x0C, 0x0C, 0xFF, 0xFF, 0x00, 0x00, 0x00, 0x00] \<and>
     (\<exists>s. last (trace d') = SPI_Transmit_DMA (spec_payload [11, 1, 2, 10, 3, 13]) 132 s)"
proof -
  note f = requested_fields [OF in_range_12_3, of 2 10]
  have rng: "fle MIN_ANGLE_DEG (nextAngle (requested (float_literal 123 10) 2 10))"
    "fle (nextAngle (requested (float_literal 123 10) 2 10)) MAX_ANGLE_DEG"
    by (simp_all add: f in_range_12_3)
  have slots: "spec_slots (float_literal 123 10) = [11, 1, 2, 10, 3, 13]"
    by (simp add: spec_slots_def spec_normalized_def spec_sign_def NEG_THRESHOLD_eq
        FLOAT_FACTOR_10_eq ftrunc_def f32_eval signed_steps_def
        INDEX_PLUS_def INDEX_MINUS_def INDEX_DOT_def INDEX_DEG_def)
  have first: "take 22 (spec_payload [11, 1, 2, 10, 3, 13]) =
       [0x00, 0x00, 0x00, 0x00, 0xC0, 0xC0, 0x00, 0x00, 0x00, 0x00, 0x00,
        0x00, 0x00, 0x0C, 0x0C, 0x0C, 0xFF, 0xFF, 0x00, 0x00, 0x00, 0x00]"
    by (simp add: spec_payload_def verdana_16ptNumbers_def upt_rec)
  from printing_payload [OF rng f(9) f(4), of env_ok]
  obtain r d' where u: "SSD1306update env_ok (requested (float_literal 123 10) 2 10) = Some (r, d')"
    and p: "take 132 (screenBuffer d') = spec_payload [11, 1, 2, 10, 3, 13]"
    and l: "\<exists>s. last (trace d') = SPI_Transmit_DMA (spec_payload [11, 1, 2, 10, 3, 13]) 132 s"
    by (auto simp: f slots env_ok_def)
  have "take 22 (screenBuffer d') = take 22 (take 132 (screenBuffer d'))" by simp
  with p first have t: "take 22 (screenBuffer d') =
       [0x00, 0x00, 0x00, 0x00, 0xC0, 0xC0, 0x00, 0x00, 0x00, 0x00, 0x00,
        0x00, 0x00, 0x0C, 0x0C, 0x0C, 0xFF, 0xFF, 0x00, 0x00, 0x00, 0x00]"
    by (simp only:)
  show ?thesis using u p l t slots by blast
qed

text \<open>
  The claim as stated, with floors, fails at \<open>-0.03125f\<close>: the sign is plus, the angle
  stays negative, its floors give the slots \<open>-1, 9, 9\<close>, and the tick writes the glyphs
  of \<open>0, 0, 0\<close>.
\<close>

theorem printing_payload_floor_counterexample:
  "fle MIN_ANGLE_DEG small_negative_angle \<and> fle small_negative_angle MAX_ANGLE_DEG \<and>
   floor_slots small_negative_angle = [11, - 1, 9, 10, 9, 13] \<and>
   (\<exists>r d'. SSD1306update env_ok (requested small_negative_angle 0 0) = Some (r, d') \<and>
      take 132 (screenBuffer d') = spec_payload [11, 0, 0, 10, 0, 13] \<and>
      take 11 (drop 22 (screenBuffer d')) = take 11 (verdana_16ptNumbers ! 0) \<and>
      take 11 (drop 22 (screenBuffer d')) \<noteq>
        take 11 (verdana_16ptNumbers ! nat (floor_slots small_negative_angle ! 2)))"
proof -
  note f = requested_fields [OF in_range_minus_1_32, of 0 0]
  have rng: "fle MIN_ANGLE_DEG (nextAngle (requested small_negative_angle 0 0))"
    "fle (nextAngle (requested small_negative_angle 0 0)) MAX_ANGLE_DEG"
    by (simp_all only: f in_range_minus_1_32)
  have fl: "floor_slots small_negative_angle = [11, - 1, 9, 10, 9, 13]"
    by (simp add: small_negative_angle_def floor_slots_def ffloor_def slots_defs)
  have slots: "spec_slots small_negative_angle = [11, 0, 0, 10, 0, 13]"
    by (simp add: small_negative_angle_def slots_defs)
  have units: "take 11 (drop 22 (spec_payload [11, 0, 0, 10, 0, 13])) = take 11 (verdana_16ptNumbers ! 0)"
    by (simp add: spec_payload_def verdana_16ptNumbers_def upt_rec)
  have differ: "take 11 (verdana_16ptNumbers ! 0) \<noteq> take 11 (verdana_16ptNumbers ! 9)"
    by (simp add: verdana_16ptNumbers_def)
  obtain r d' where u: "SSD1306update env_ok (requested small_negative_angle 0 0) = Some (r, d')"
    and p: "take 132 (screenBuffer d') = spec_payload [11, 0, 0, 10, 0, 13]"
    using printing_buffer [OF rng f(9) f(4), of env_ok] by (auto simp: f slots)
  have "take 11 (drop 22 (screenBuffer d')) = take 11 (drop 22 (take 132 (screenBuffer d')))"
    by (simp add: drop_take)
  with p units have g: "take 11 (drop 22 (screenBuffer d')) = take 11 (verdana_16ptNumbers ! 0)"
    by (simp only:)
  have "nat (floor_slots small_negative_angle ! 2) = 9"
    by (simp only: fl) simp
  with differ g have ne: "take 11 (drop 22 (screenBuffer d')) \<noteq>
        take 11 (verdana_16ptNumbers ! nat (floor_slots small_negative_angle ! 2))"
    by simp
  show ?thesis
    using in_range_minus_1_32 fl u p g ne by blast
qed

text \<open>
  C4. For every angle in \<open>[-90.0f, 90.0f]\<close> the sign slot is plus when the angle is at
  least the threshold \<open>-0.05f\<close> and minus otherwise; with a minus the digits are taken
  from the opposite of the angle, with a plus from the angle itself. In particular the
  sign is plus for every angle of magnitude below \<open>1/20\<close>.
\<close>

theorem sign_slot_threshold:
  assumes "fle MIN_ANGLE_DEG a" and "fle a MAX_ANGLE_DEG"
  shows "\<exists>idx a'. angle_charIndexes a = Some (idx, a') \<and>
     idx ! INDEX_SIGN = (if fle NEG_THRESHOLD a then INDEX_PLUS else INDEX_MINUS) \<and>
     a' = (if idx ! INDEX_SIGN = INDEX_MINUS then fneg a else a) \<and>
     idx ! INDEX_TENS = of_nat (ftrunc (fdiv a' FLOAT_FACTOR_10)) \<and>
     idx ! INDEX_UNITS = of_nat (ftrunc a' mod 10) \<and>
     idx ! INDEX_TENTHS = of_nat (ftrunc (fmul a' FLOAT_FACTOR_10) mod 10) \<and>
     (\<forall>s m. a = Finite s m \<and> 20 * m < ONE_F32 \<longrightarrow> idx ! INDEX_SIGN = INDEX_PLUS)"
proof -
  have small: "fle NEG_THRESHOLD (Finite s m)" if "20 * m < ONE_F32" for s m
    using that by (simp add: NEG_THRESHOLD_eq signed_steps_def ONE_F32_def)
  show ?thesis
    unfolding angle_charIndexes_in_range [OF assms]
    by (auto simp: spec_slots_def spec_normalized_def spec_sign_def Let_def small
        INDEX_SIGN_def INDEX_TENS_def INDEX_UNITS_def INDEX_TENTHS_def
        INDEX_PLUS_def INDEX_MINUS_def)
qed

theorem sign_slot_threshold_witness:
  "(\<exists>idx. angle_charIndexes (fneg (float_literal 10 100)) = Some (idx, float_literal 10 100) \<and>
      idx ! INDEX_SIGN = INDEX_MINUS \<and> idx ! INDEX_TENS = 0 \<and> idx ! INDEX_UNITS = 0 \<and>
      idx ! INDEX_TENTHS = 1) \<and>
   (\<exists>idx. angle_charIndexes small_negative_angle = Some (idx, small_negative_angle) \<and>
      idx ! INDEX_SIGN = INDEX_PLUS \<and> idx ! INDEX_TENS = 0 \<and> idx ! INDEX_UNITS = 0 \<and>
      idx ! INDEX_TENTHS = 0)"
proof -
  have m: "\<not> fle NEG_THRESHOLD (fneg (float_literal 10 100))"
    by (simp add: NEG_THRESHOLD_eq f32_eval signed_steps_def)
  have dm: "ftrunc (fdiv (float_literal 10 100) FLOAT_FACTOR_10) = 0"
    "ftrunc (float_literal 10 100) mod 10 = 0"
    "ftrunc (fmul (float_literal 10 100) FLOAT_FACTOR_10) mod 10 = 1"
    by (simp_all add: FLOAT_FACTOR_10_eq ftrunc_def f32_eval)
  have n: "fneg (fneg (float_literal 10 100)) = float_literal 10 100"
    by (simp add: f32_eval)
  have p: "fle NEG_THRESHOLD small_negative_angle"
    by (simp add: small_negative_angle_def NEG_THRESHOLD_eq f32_eval signed_steps_def)
  have dp: "ftrunc (fdiv small_negative_angle FLOAT_FACTOR_10) = 0"
    "ftrunc small_negative_angle mod 10 = 0"
    "ftrunc (fmul small_negative_angle FLOAT_FACTOR_10) mod 10 = 0"
    by (simp_all add: small_negative_angle_def FLOAT_FACTOR_10_eq ftrunc_def f32_eval)
  have pm: "INDEX_PLUS \<noteq> INDEX_MINUS"
    by (simp add: INDEX_PLUS_def INDEX_MINUS_def)
  from sign_slot_threshold [OF in_range_minus_0_1]
  obtain idx a' where a1: "angle_charIndexes (fneg (float_literal 10 100)) = Some (idx, a')"
    and a2: "idx ! INDEX_SIGN =
      (if fle NEG_THRESHOLD (fneg (float_literal 10 100)) then INDEX_PLUS else INDEX_MINUS)"
    and a3: "a' = (if idx ! INDEX_SIGN = INDEX_MINUS then fneg (fneg (float_literal 10 100))
                   else fneg (float_literal 10 100))"
    and a4: "idx ! INDEX_TENS = of_nat (ftrunc (fdiv a' FLOAT_FACTOR_10))"
      "idx ! INDEX_UNITS = of_nat (ftrunc a' mod 10)"
      "idx ! INDEX_TENTHS = of_nat (ftrunc (fmul a' FLOAT_FACTOR_10) mod 10)"
    by blast
  from a2 m have as: "idx ! INDEX_SIGN = INDEX_MINUS" by simp
  with a3 n have aa: "a' = float_literal 10 100" by simp
  have a: "\<exists>idx. angle_charIndexes (fneg (float_literal 10 100)) = Some (idx, float_literal 10 100) \<and>
      idx ! INDEX_SIGN = INDEX_MINUS \<and> idx ! INDEX_TENS = 0 \<and> idx ! INDEX_UNITS = 0 \<and>
      idx ! INDEX_TENTHS = 1"
    using a1 as a4 by (simp add: aa dm)
  from sign_slot_threshold [OF in_range_minus_1_32]
  obtain idx2 a2' where b1: "angle_charIndexes small_negative_angle = Some (idx2, a2')"
    and b2: "idx2 ! INDEX_SIGN =
      (if fle NEG_THRESHOLD small_negative_angle then INDEX_PLUS else INDEX_MINUS)"
    and b3: "a2' = (if idx2 ! INDEX_SIGN = INDEX_MINUS then fneg small_negative_angle
                    else small_negative_angle)"
    and b4: "idx2 ! INDEX_TENS = of_nat (ftrunc (fdiv a2' FLOAT_FACTOR_10))"
      "idx2 ! INDEX_UNITS = of_nat (ftrunc a2' mod 10)"
      "idx2 ! INDEX_TENTHS = of_nat (ftrunc (fmul a2' FLOAT_FACTOR_10) mod 10)"
    by blast
  from b2 p have bs: "idx2 ! INDEX_SIGN = INDEX_PLUS" by simp
  with b3 pm have ba: "a2' = small_negative_angle" by simp
  have b: "\<exists>idx. angle_charIndexes small_negative_angle = Some (idx, small_negative_angle) \<and>
      idx ! INDEX_SIGN = INDEX_PLUS \<and> idx ! INDEX_TENS = 0 \<and> idx ! INDEX_UNITS = 0 \<and>
      idx ! INDEX_TENTHS = 0"
    using b1 bs b4 by (simp add: ba dp)
  from a b show ?thesis by blast
qed

text \<open>
  C1. The result of the PAGE_ADDRESS command is not assigned: when its transfer fails
  after a COLUMN_ADDRESS command that went through, the tick goes on, launches the DMA,
  returns success and moves to the waiting state.
\<close>

theorem page_address_failure_is_not_reported:
  "\<exists>d'. SSD1306update (env_failing_at 2 HAL_ERROR) (requested (float_literal 123 10) 2 10) =
           Some (ERR_SUCCESS, d') \<and>
     state d' = ST_WAITING_FOR_TX_DONE \<and>
     take 9 (trace d') =
       [GPIO_Write SSD1306_DC_Pin GPIO_PIN_RESET, GPIO_Write SSD1306_CS_Pin GPIO_PIN_RESET,
        SPI_Transmit (Command COLUMN_ADDRESS) HAL_OK,
        SPI_Transmit (Data [10, 75]) HAL_OK,
        GPIO_Write SSD1306_CS_Pin GPIO_PIN_SET,
        GPIO_Write SSD1306_DC_Pin GPIO_PIN_RESET, GPIO_Write SSD1306_CS_Pin GPIO_PIN_RESET,
        SPI_Transmit (Command PAGE_ADDRESS) HAL_ERROR,
        GPIO_Write SSD1306_CS_Pin GPIO_PIN_SET]"
proof -
  note f = requested_fields [OF in_range_12_3, of 2 10]
  have rng: "fle MIN_ANGLE_DEG (nextAngle (requested (float_literal 123 10) 2 10))"
    "fle (nextAngle (requested (float_literal 123 10) 2 10)) MAX_ANGLE_DEG"
    by (simp_all add: f in_range_12_3)
  show ?thesis
    unfolding update_printing [OF f(4)] stPrintingAngle_outcome [OF rng f(9)]
    by (simp add: f env_failing_at_def Let_def command_events_def rasterized_def)
qed

text \<open>
  C2. When the launch of the DMA fails, the tick returns to the idle state without
  deasserting CS: the driver is idle with the chip-select line low.
\<close>

theorem idle_with_chip_select_asserted:
  "\<exists>d'. SSD1306update (env_failing_at 4 HAL_BUSY) (requested (float_literal 123 10) 2 10) =
           Some (Failure ERR_ERROR [(PRINTING_ANGLE, 3)] (Some HAL_BUSY), d') \<and>
     state d' = ST_IDLE \<and> isScreenReady d' \<and>
     pins d' SSD1306_CS_Pin = GPIO_PIN_RESET"
proof -
  note f = requested_fields [OF in_range_12_3, of 2 10]
  have rng: "fle MIN_ANGLE_DEG (nextAngle (requested (float_literal 123 10) 2 10))"
    "fle (nextAngle (requested (float_literal 123 10) 2 10)) MAX_ANGLE_DEG"
    by (simp_all add: f in_range_12_3)
  show ?thesis
    unfolding update_printing [OF f(4)] stPrintingAngle_outcome [OF rng f(9)]
    by (simp add: f env_failing_at_def Let_def command_events_def rasterized_def isScreenReady_def)
qed

subsection \<open>Initialisation and clear\<close>

lemma sendCommand_ok:
  assumes "\<forall>n. hal_status e n = HAL_OK" and "nb \<le> MAX_PARAMETERS" and "unat nb \<le> length ps"
  shows "SSD1306sendCommand e r (Some ps) nb d =
     (ERR_SUCCESS,
      d\<lparr>pins := (pins d)(SSD1306_DC_Pin := GPIO_PIN_RESET, SSD1306_CS_Pin := GPIO_PIN_SET),
        trace := trace d @ command_events r (take (unat nb) ps) HAL_OK HAL_OK,
        hal_calls := (if nb \<noteq> 0 then Suc (Suc (hal_calls d)) else Suc (hal_calls d))\<rparr>)"
  by (simp add: sendCommand_effect [OF assms(2,3)] assms(1))

lemma sendData_ok:
  assumes "\<forall>n. hal_status e n = HAL_OK" and "size' \<noteq> 0" and "unat size' \<le> MAX_DATA_SIZE"
  shows "SSD1306sendData e (Some vs) size' d =
     (ERR_SUCCESS,
      d\<lparr>pins := (pins d)(SSD1306_DC_Pin := GPIO_PIN_SET, SSD1306_CS_Pin := GPIO_PIN_SET),
        trace := trace d @ data_events (take (unat size') vs) HAL_OK,
        hal_calls := Suc (hal_calls d)\<rparr>)"
  using assms by (simp add: SSD1306sendData_def hal_defs data_events_def Let_def)

lemma clearScreen_ok:
  assumes ok: "\<forall>n. hal_status e n = HAL_OK"
  shows "SSD1306clearScreen e d =
     (ERR_SUCCESS,
      d\<lparr>pins := (pins d)(SSD1306_DC_Pin := GPIO_PIN_SET, SSD1306_CS_Pin := GPIO_PIN_SET),
        trace := trace d @ command_events COLUMN_ADDRESS [0, 127] HAL_OK HAL_OK @
                   command_events PAGE_ADDRESS [0, 31] HAL_OK HAL_OK @
                   data_events (take 1024 (screenBuffer d)) HAL_OK,
        hal_calls := hal_calls d + 5\<rparr>)"
proof -
  have two: "(2 :: uint8_t) \<le> MAX_PARAMETERS" "unat (2 :: uint8_t) \<le> length [x, y]" for x y :: uint8_t
    by (simp_all add: MAX_PARAMETERS_def)
  have sz: "(of_nat MAX_DATA_SIZE :: uint16_t) \<noteq> 0" "unat (of_nat MAX_DATA_SIZE :: uint16_t) \<le> MAX_DATA_SIZE"
    "unat (of_nat MAX_DATA_SIZE :: uint16_t) = 1024"
    by (simp_all add: MAX_DATA_SIZE_def)
  show ?thesis
    by (simp add: SSD1306clearScreen_def Let_def sendCommand_ok [OF ok two]
        sendData_ok [OF ok sz(1,2)] sz(3))
qed

text \<open>
  C8. When every transfer succeeds and the frame buffer holds its initial zeros,
  \<open>SSD1306initialise\<close> deasserts CS, pulses RST and emits exactly eight command
  transactions, in the order SCAN_DIRECTION, HARDWARE_CONFIG, SEGMENT_REMAP_127,
  MEMORY_ADDR_MODE, CONTRAST_CONTROL, CLOCK_DIVIDE_RATIO, CHARGE_PUMP, DISPLAY_ON; then
  \<open>SSD1306clearScreen\<close> sends COLUMN_ADDRESS with \<open>[0, 127]\<close>, PAGE_ADDRESS with
  \<open>[0, 31]\<close> and the 1024 bytes of the buffer, all zero, in one data transfer.
\<close>

theorem initialise_sequence:
  assumes ok: "\<forall>n. hal_status e n = HAL_OK"
    and buf: "screenBuffer d = replicate MAX_DATA_SIZE 0"
  shows "\<exists>d'. SSD1306initialise e k d = (ERR_SUCCESS, d') \<and>
     trace d' = trace d @
       [GPIO_Write SSD1306_CS_Pin GPIO_PIN_SET,
        GPIO_Write SSD1306_RST_Pin GPIO_PIN_RESET, GPIO_Write SSD1306_RST_Pin GPIO_PIN_SET] @
       command_events SCAN_DIRECTION_N1_0 [] HAL_OK HAL_OK @
       command_events HARDWARE_CONFIG [or (SSD_PIN_CONFIG_ALT k) (SSD_COM_REMAP_DISABLE k)] HAL_OK HAL_OK @
       command_events SEGMENT_REMAP_127 [] HAL_OK HAL_OK @
       command_events MEMORY_ADDR_MODE [SSD_HORIZONTAL_ADDR k] HAL_OK HAL_OK @
       command_events CONTRAST_CONTROL [SSD_CONTRAST_HIGHEST k] HAL_OK HAL_OK @
       command_events CLOCK_DIVIDE_RATIO [or (SSD_CLOCK_FREQ_MID k) (SSD_CLOCK_DIVIDER_1 k)] HAL_OK HAL_OK @
       command_events CHG_PUMP_REGULATOR [SSD_ENABLE_CHG_PUMP k] HAL_OK HAL_OK @
       command_events DISPLAY_ON [] HAL_OK HAL_OK @
       command_events COLUMN_ADDRESS [0, 127] HAL_OK HAL_OK @
       command_events PAGE_ADDRESS [0, 31] HAL_OK HAL_OK @
       data_events (replicate 1024 0) HAL_OK"
proof -
  have nb: "(0 :: uint8_t) \<le> MAX_PARAMETERS" "(1 :: uint8_t) \<le> MAX_PARAMETERS"
    "unat (0 :: uint8_t) \<le> length [x]" "unat (1 :: uint8_t) \<le> length [x]" for x :: uint8_t
    by (simp_all add: MAX_PARAMETERS_def)
  show ?thesis
    by (simp add: SSD1306initialise_def initCommands_def sendCommand_ok [OF ok nb(1,3)]
        sendCommand_ok [OF ok nb(2,4)] clearScreen_ok [OF ok] hal_defs buf MAX_DATA_SIZE_def)
qed

theorem initialise_sequence_witness:
  "\<exists>d'. SSD1306initialise env_ok example_register_values (power_on (\<lambda>l. GPIO_PIN_RESET)) =
           (ERR_SUCCESS, d') \<and>
     trace d' =
       [GPIO_Write SSD1306_CS_Pin GPIO_PIN_SET,
        GPIO_Write SSD1306_RST_Pin GPIO_PIN_RESET, GPIO_Write SSD1306_RST_Pin GPIO_PIN_SET] @
       command_events SCAN_DIRECTION_N1_0 [] HAL_OK HAL_OK @
       command_events HARDWARE_CONFIG [0x12] HAL_OK HAL_OK @
       command_events SEGMENT_REMAP_127 [] HAL_OK HAL_OK @
       command_events MEMORY_ADDR_MODE [0x00] HAL_OK HAL_OK @
       command_events CONTRAST_CONTROL [0xFF] HAL_OK HAL_OK @
       command_events CLOCK_DIVIDE_RATIO [0x80] HAL_OK HAL_OK @
       command_events CHG_PUMP_REGULATOR [0x14] HAL_OK HAL_OK @
       command_events DISPLAY_ON [] HAL_OK HAL_OK @
       command_events COLUMN_ADDRESS [0, 127] HAL_OK HAL_OK @
       command_events PAGE_ADDRESS [0, 31] HAL_OK HAL_OK @
       data_events (replicate 1024 0) HAL_OK"
proof -
  have ok: "\<forall>n. hal_status env_ok n = HAL_OK" by (simp add: env_ok_def)
  have buf: "screenBuffer (power_on (\<lambda>l. GPIO_PIN_RESET)) = replicate MAX_DATA_SIZE 0"
    by (simp add: power_on_def)
  have tr: "trace (power_on (\<lambda>l. GPIO_PIN_RESET)) = []"
    by (simp add: power_on_def)
  from initialise_sequence [OF ok buf, of example_register_values]
  show ?thesis
    by (simp add: tr example_register_values_def)
qed

subsection \<open>The waiting state and the deadline\<close>

lemma update_idle: "state d = ST_IDLE \<Longrightarrow> SSD1306update e d = Some (ERR_SUCCESS, d)"
  by (simp add: SSD1306update_def stIdle_def)

lemma update_waiting_busy:
  assumes "state d = ST_WAITING_FOR_TX_DONE" and "screenTimer_ms d \<noteq> 0"
    and "spi_state e (state_polls d) \<noteq> HAL_SPI_STATE_READY"
  shows "SSD1306update e d = Some (ERR_SUCCESS, d\<lparr>state_polls := Suc (state_polls d)\<rparr>)"
  using assms by (simp add: SSD1306update_def stWaitingForTXdone_def hal_defs)

lemma update_waiting_expired:
  assumes "state d = ST_WAITING_FOR_TX_DONE" and "screenTimer_ms d = 0"
  shows "SSD1306update e d =
     Some (DmaTimeout,
           d\<lparr>pins := (pins d)(SSD1306_CS_Pin := GPIO_PIN_SET),
             trace := trace d @ [GPIO_Write SSD1306_CS_Pin GPIO_PIN_SET, SPI_DMAStop],
             state := ST_IDLE\<rparr>)"
  using assms by (simp add: SSD1306update_def stWaitingForTXdone_def hal_defs DmaTimeout_def)

lemma run_append:
  "run e (xs @ ys) d =
     (case run e xs d of
        None \<Rightarrow> None
      | Some (rs, d1) \<Rightarrow>
          (case run e ys d1 of None \<Rightarrow> None | Some (rs2, d2) \<Rightarrow> Some (rs @ rs2, d2)))"
proof (induction xs arbitrary: d)
  case Nil
  then show ?case by (simp split: option.splits)
next
  case (Cons x xs)
  then show ?case by (cases x) (simp_all split: option.splits prod.splits)
qed

lemma run_waiting:
  assumes never: "\<forall>n. spi_state e n \<noteq> HAL_SPI_STATE_READY"
  shows "state d = ST_WAITING_FOR_TX_DONE \<Longrightarrow> count_list evs MsTick < unat (screenTimer_ms d) \<Longrightarrow>
     \<exists>d'. run e evs d = Some (replicate (count_list evs Update) ERR_SUCCESS, d') \<and>
       state d' = ST_WAITING_FOR_TX_DONE \<and>
       unat (screenTimer_ms d') = unat (screenTimer_ms d) - count_list evs MsTick \<and>
       trace d' = trace d \<and> pins d' = pins d"
proof (induction evs arbitrary: d)
  case Nil
  then show ?case by simp
next
  case (Cons ev evs)
  show ?case
  proof (cases ev)
    case MsTick
    from Cons.prems have nz: "screenTimer_ms d \<noteq> 0" by (auto simp: MsTick unat_eq_0)
    then have t: "unat (screenTimer_ms (ms_tick d)) = unat (screenTimer_ms d) - 1"
      by (simp add: ms_tick_def unat_minus_one)
    have "\<exists>d'. run e evs (ms_tick d) = Some (replicate (count_list evs Update) ERR_SUCCESS, d') \<and>
       state d' = ST_WAITING_FOR_TX_DONE \<and>
       unat (screenTimer_ms d') = unat (screenTimer_ms (ms_tick d)) - count_list evs MsTick \<and>
       trace d' = trace (ms_tick d) \<and> pins d' = pins (ms_tick d)"
      using Cons.prems t by (intro Cons.IH) (simp_all add: ms_tick_def MsTick)
    then show ?thesis using t by (auto simp: MsTick ms_tick_def)
  next
    case Update
    from Cons.prems have nz: "screenTimer_ms d \<noteq> 0" by (auto simp: unat_eq_0)
    note u = update_waiting_busy [OF Cons.prems(1) nz never [rule_format]]
    have "\<exists>d'. run e evs (d\<lparr>state_polls := Suc (state_polls d)\<rparr>) =
         Some (replicate (count_list evs Update) ERR_SUCCESS, d') \<and>
       state d' = ST_WAITING_FOR_TX_DONE \<and>
       unat (screenTimer_ms d') =
         unat (screenTimer_ms (d\<lparr>state_polls := Suc (state_polls d)\<rparr>)) - count_list evs MsTick \<and>
       trace d' = trace (d\<lparr>state_polls := Suc (state_polls d)\<rparr>) \<and>
       pins d' = pins (d\<lparr>state_polls := Suc (state_polls d)\<rparr>)"
      using Cons.prems by (intro Cons.IH) (simp_all add: Update)
    then show ?thesis using u by (auto simp: Update)
  qed
qed

lemma run_ms_ticks_expired:
  "screenTimer_ms d = 0 \<Longrightarrow> run e (replicate k MsTick) d = Some ([], d)"
proof (induction k)
  case 0
  then show ?case by simp
next
  case (Suc k)
  from Suc.prems have "ms_tick d = d" by (simp add: ms_tick_def)
  with Suc show ?case by simp
qed

lemma run_idle:
  "state d = ST_IDLE \<Longrightarrow>
     \<exists>d'. run e evs d = Some (replicate (count_list evs Update) ERR_SUCCESS, d') \<and>
       state d' = ST_IDLE \<and> trace d' = trace d \<and> pins d' = pins d"
proof (induction evs arbitrary: d)
  case Nil
  then show ?case by simp
next
  case (Cons ev evs)
  show ?case
  proof (cases ev)
    case MsTick
    have "\<exists>d'. run e evs (ms_tick d) = Some (replicate (count_list evs Update) ERR_SUCCESS, d') \<and>
       state d' = ST_IDLE \<and> trace d' = trace (ms_tick d) \<and> pins d' = pins (ms_tick d)"
      using Cons.prems by (intro Cons.IH) (simp add: ms_tick_def)
    then show ?thesis by (auto simp: MsTick ms_tick_def)
  next
    case Update
    from Cons.IH [OF Cons.prems] update_idle [OF Cons.prems, of e]
    show ?thesis by (auto simp: Update)
  qed
qed

lemma run_after_launch:
  assumes w: "state d1 = ST_WAITING_FOR_TX_DONE" and t: "screenTimer_ms d1 = 10"
    and never: "\<forall>n. spi_state e n \<noteq> HAL_SPI_STATE_READY"
    and nine: "count_list before MsTick = 9"
  shows "\<exists>d2. run e (before @ [MsTick] @ replicate k MsTick @ [Update] @ after) d1 =
         Some (replicate (count_list before Update) ERR_SUCCESS @ [DmaTimeout] @
               replicate (count_list after Update) ERR_SUCCESS, d2) \<and>
       state d2 = ST_IDLE \<and> pins d2 SSD1306_CS_Pin = GPIO_PIN_SET \<and>
       trace d2 = trace d1 @ [GPIO_Write SSD1306_CS_Pin GPIO_PIN_SET, SPI_DMAStop]"
proof -
  have "count_list before MsTick < unat (screenTimer_ms d1)"
    by (simp add: t nine)
  from run_waiting [OF never w this]
  obtain dA where a: "run e before d1 = Some (replicate (count_list before Update) ERR_SUCCESS, dA)"
    and wa: "state dA = ST_WAITING_FOR_TX_DONE"
    and ta: "unat (screenTimer_ms dA) = unat (screenTimer_ms d1) - count_list before MsTick"
    and tra: "trace dA = trace d1" and pa: "pins dA = pins d1"
    by blast
  from ta have "unat (screenTimer_ms dA) = 1" by (simp add: t nine)
  then have one: "screenTimer_ms dA = 1" by (simp add: word_unat_eq_iff)
  define dT where "dT = ms_tick dA"
  have tT: "screenTimer_ms dT = 0" and wT: "state dT = ST_WAITING_FOR_TX_DONE"
    and trT: "trace dT = trace dA" and pT: "pins dT = pins dA"
    by (simp_all add: dT_def ms_tick_def one wa)
  have b: "run e [MsTick] dA = Some ([], dT)" by (simp add: dT_def)
  have c: "run e (replicate k MsTick) dT = Some ([], dT)"
    by (rule run_ms_ticks_expired [OF tT])
  define dB where "dB = dT\<lparr>pins := (pins dT)(SSD1306_CS_Pin := GPIO_PIN_SET),
             trace := trace dT @ [GPIO_Write SSD1306_CS_Pin GPIO_PIN_SET, SPI_DMAStop],
             state := ST_IDLE\<rparr>"
  have u: "SSD1306update e dT = Some (DmaTimeout, dB)"
    unfolding dB_def by (rule update_waiting_expired [OF wT tT])
  have iB: "state dB = ST_IDLE" by (simp add: dB_def)
  from run_idle [OF iB, of e after]
  obtain d2 where f: "run e after dB = Some (replicate (count_list after Update) ERR_SUCCESS, d2)"
    and i2: "state d2 = ST_IDLE" and tr2: "trace d2 = trace dB" and p2: "pins d2 = pins dB"
    by blast
  have g: "run e ([Update] @ after) dT =
      Some ([DmaTimeout] @ replicate (count_list after Update) ERR_SUCCESS, d2)"
    using u f by simp
  have "run e (before @ [MsTick] @ replicate k MsTick @ [Update] @ after) d1 =
         Some (replicate (count_list before Update) ERR_SUCCESS @ [DmaTimeout] @
               replicate (count_list after Update) ERR_SUCCESS, d2)"
    by (simp only: run_append [of e before] run_append [of e "[MsTick]"]
        run_append [of e "replicate k MsTick"] a b c g option.case prod.case append_Nil)
  moreover have "pins d2 SSD1306_CS_Pin = GPIO_PIN_SET" by (simp add: p2 dB_def)
  moreover have "trace d2 = trace d1 @ [GPIO_Write SSD1306_CS_Pin GPIO_PIN_SET, SPI_DMAStop]"
    by (simp add: tr2 dB_def trT tra)
  ultimately show ?thesis using i2 by blast
qed

lemma launched_deadline:
  assumes rng: "fle MIN_ANGLE_DEG (nextAngle d)" "fle (nextAngle d) MAX_ANGLE_DEG"
    and len: "length (screenBuffer d) = MAX_DATA_SIZE"
    and st: "state d = ST_PRINTING_ANGLE"
    and launched: "SSD1306update e d = Some (r, d1)" "state d1 = ST_WAITING_FOR_TX_DONE"
  shows "screenTimer_ms d1 = 10 \<and> r = ERR_SUCCESS \<and> pins d1 SSD1306_CS_Pin = GPIO_PIN_RESET \<and>
         (\<exists>s. last (trace d1) = SPI_Transmit_DMA (spec_payload (spec_slots (nextAngle d))) 132 s)"
  using launched
  unfolding update_printing [OF st] stPrintingAngle_outcome [OF rng len]
  by (auto simp: Let_def split: if_splits)

text \<open>
  C5. A tick that launches the DMA sets the deadline to 10 ms. If the peripheral never
  reports ready, then in every run the calls of \<open>SSD1306update\<close> made before the tenth
  millisecond tick return success, the first call made once the deadline has reached
  zero (after the tenth tick) returns the timeout error \<open>(WAITING_DMA_RDY, 1)\<close>, deasserts
  CS, stops the DMA and returns to the idle state, and every later call returns success:
  the timeout is reported exactly once. When \<open>update\<close> runs on every tick, that is the
  tenth tick after the launch.
\<close>

theorem dma_timeout_reported_once:
  assumes rng: "fle MIN_ANGLE_DEG (nextAngle d)" "fle (nextAngle d) MAX_ANGLE_DEG"
    and len: "length (screenBuffer d) = MAX_DATA_SIZE"
    and st: "state d = ST_PRINTING_ANGLE"
    and launched: "SSD1306update e d = Some (r, d1)" "state d1 = ST_WAITING_FOR_TX_DONE"
    and never: "\<forall>n. spi_state e n \<noteq> HAL_SPI_STATE_READY"
    and nine: "count_list before MsTick = 9"
  shows "screenTimer_ms d1 = SPI_TIMEOUT_MS \<and> SPI_TIMEOUT_MS = 10 \<and>
     (\<exists>d2. run e (before @ [MsTick] @ replicate k MsTick @ [Update] @ after) d1 =
         Some (replicate (count_list before Update) ERR_SUCCESS @
               [createErrorCode WAITING_DMA_RDY 1 ERR_ERROR] @
               replicate (count_list after Update) ERR_SUCCESS, d2) \<and>
       state d2 = ST_IDLE \<and> pins d2 SSD1306_CS_Pin = GPIO_PIN_SET \<and>
       trace d2 = trace d1 @ [GPIO_Write SSD1306_CS_Pin GPIO_PIN_SET, SPI_DMAStop])"
proof -
  from launched_deadline [OF rng len st launched] have t: "screenTimer_ms d1 = 10" by blast
  from run_after_launch [OF launched(2) t never nine, of k after] t
  show ?thesis by (simp add: SPI_TIMEOUT_MS_def DmaTimeout_def)
qed

lemma count_loop_ticks:
  "count_list (loop_ticks n) MsTick = n" "count_list (loop_ticks n) Update = n"
  by (induction n) (simp_all add: loop_ticks_def)

lemma loop_ticks_add: "loop_ticks (m + n) = loop_ticks m @ loop_ticks n"
  by (induction m) (simp_all add: loop_ticks_def)

lemma loop_ticks_split:
  "loop_ticks (m + Suc n) = loop_ticks m @ [MsTick] @ replicate 0 MsTick @ [Update] @ loop_ticks n"
proof -
  have "loop_ticks (m + Suc n) = loop_ticks m @ loop_ticks (Suc n)"
    by (rule loop_ticks_add)
  also have "loop_ticks (Suc n) = [MsTick, Update] @ loop_ticks n"
    by (simp add: loop_ticks_def)
  finally show ?thesis by simp
qed

lemma launch_ok:
  assumes rng: "fle MIN_ANGLE_DEG (nextAngle d)" "fle (nextAngle d) MAX_ANGLE_DEG"
    and len: "length (screenBuffer d) = MAX_DATA_SIZE"
    and st: "state d = ST_PRINTING_ANGLE"
    and ok: "\<forall>n. hal_status e n = HAL_OK"
  shows "\<exists>d1. SSD1306update e d = Some (ERR_SUCCESS, d1) \<and> state d1 = ST_WAITING_FOR_TX_DONE"
  unfolding update_printing [OF st] stPrintingAngle_outcome [OF rng len]
  by (simp add: ok Let_def)

theorem dma_timeout_reported_once_witness:
  "\<exists>d1 d2. SSD1306update env_ok (requested (float_literal 123 10) 2 10) = Some (ERR_SUCCESS, d1) \<and>
     state d1 = ST_WAITING_FOR_TX_DONE \<and> screenTimer_ms d1 = 10 \<and>
     run env_ok (loop_ticks 12) d1 =
       Some (replicate 9 ERR_SUCCESS @ [createErrorCode WAITING_DMA_RDY 1 ERR_ERROR] @
             replicate 2 ERR_SUCCESS, d2) \<and>
     state d2 = ST_IDLE \<and> pins d2 SSD1306_CS_Pin = GPIO_PIN_SET \<and>
     trace d2 = trace d1 @ [GPIO_Write SSD1306_CS_Pin GPIO_PIN_SET, SPI_DMAStop]"
proof -
  note f = requested_fields [OF in_range_12_3, of 2 10]
  have rng: "fle MIN_ANGLE_DEG (nextAngle (requested (float_literal 123 10) 2 10))"
    "fle (nextAngle (requested (float_literal 123 10) 2 10)) MAX_ANGLE_DEG"
    by (simp_all add: f in_range_12_3)
  have ok: "\<forall>n. hal_status env_ok n = HAL_OK" by (simp add: env_ok_def)
  have never: "\<forall>n. spi_state env_ok n \<noteq> HAL_SPI_STATE_READY" by (simp add: env_ok_def)
  from launch_ok [OF rng f(9) f(4) ok]
  obtain d1 where l: "SSD1306update env_ok (requested (float_literal 123 10) 2 10) = Some (ERR_SUCCESS, d1)"
    and w: "state d1 = ST_WAITING_FOR_TX_DONE"
    by blast
  have sp: "loop_ticks 12 = loop_ticks 9 @ [MsTick] @ replicate 0 MsTick @ [Update] @ loop_ticks 2"
    using loop_ticks_split [of 9 2] by simp
  from dma_timeout_reported_once [OF rng f(9) f(4) l w never count_loop_ticks(1) [of 9], of 0 "loop_ticks 2"]
  have "screenTimer_ms d1 = 10 \<and>
     (\<exists>d2. run env_ok (loop_ticks 12) d1 =
       Some (replicate 9 ERR_SUCCESS @ [createErrorCode WAITING_DMA_RDY 1 ERR_ERROR] @
             replicate 2 ERR_SUCCESS, d2) \<and>
     state d2 = ST_IDLE \<and> pins d2 SSD1306_CS_Pin = GPIO_PIN_SET \<and>
     trace d2 = trace d1 @ [GPIO_Write SSD1306_CS_Pin GPIO_PIN_SET, SPI_DMAStop])"
    unfolding sp by (simp add: count_loop_ticks)
  with l w show ?thesis by blast
qed

subsection \<open>Further properties of the driver\<close>

text \<open>The example angle \<open>-0.03125f\<close> is a binary32 value.\<close>

lemma small_negative_angle_value:
  "small_negative_angle = Finite True (2 ^ 144)" "is_binary32_magnitude (2 ^ 144)"
  by (simp_all add: small_negative_angle_def f32_eval is_binary32_magnitude_def)

text \<open>
  A NaN passes the range check of \<open>SSD1306_printAngle\<close> in every driver state, for every
  page and column and whatever the HAL answers: the request is latched, and the next
  tick converts a NaN to an integer, which is undefined behaviour.
\<close>

theorem printAngle_accepts_nan:
  "SSD1306_printAngle NaN page column d =
     (ERR_SUCCESS,
      d\<lparr>nextAngle := NaN, nextPage := page, nextColumn := column, state := ST_PRINTING_ANGLE\<rparr>) \<and>
   SSD1306update e (snd (SSD1306_printAngle NaN page column d)) = None"
  by (simp add: SSD1306_printAngle_def fgt_def MAX_ANGLE_DEG_eq SSD1306update_def
      stPrintingAngle_def angle_charIndexes_def float_to_uint8_def Let_def)

text \<open>
  \<open>SSD1306sendCommand\<close> with more than 6 parameters (7 and more) returns the warning
  \<open>(SEND_CMD, 1)\<close> and touches neither the GPIO lines nor the bus.
\<close>

theorem sendCommand_too_many_parameters:
  "MAX_PARAMETERS < nb \<Longrightarrow>
     SSD1306sendCommand e r parameters nb d = (createErrorCode SEND_CMD 1 ERR_WARNING, d)"
  by (simp add: SSD1306sendCommand_def)

theorem sendCommand_too_many_parameters_witness:
  "SSD1306sendCommand env_ok COLUMN_ADDRESS (Some [1, 2, 3, 4, 5, 6, 7]) 7 (power_on (\<lambda>l. GPIO_PIN_SET)) =
     (createErrorCode SEND_CMD 1 ERR_WARNING, power_on (\<lambda>l. GPIO_PIN_SET))"
proof -
  have "MAX_PARAMETERS < 7" by (simp add: MAX_PARAMETERS_def)
  from sendCommand_too_many_parameters [OF this] show ?thesis .
qed

text \<open>
  Every command transaction and every data transaction that reaches the bus ends with
  CS deasserted, whether its transfers succeed or fail.
\<close>

theorem transfers_leave_chip_select_deasserted:
  "(nb \<le> MAX_PARAMETERS \<longrightarrow>
      pins (snd (SSD1306sendCommand e r parameters nb d)) SSD1306_CS_Pin = GPIO_PIN_SET) \<and>
   (values \<noteq> None \<and> size' \<noteq> 0 \<and> unat size' \<le> MAX_DATA_SIZE \<longrightarrow>
      pins (snd (SSD1306sendData e values size' d)) SSD1306_CS_Pin = GPIO_PIN_SET)"
  by (auto simp: SSD1306sendCommand_def SSD1306sendData_def hal_defs Let_def
      split: option.splits prod.splits)

theorem transfers_leave_chip_select_deasserted_witness:
  "pins (snd (SSD1306sendCommand (env_failing_at 0 HAL_TIMEOUT) PAGE_ADDRESS (Some [0, 31]) 2
            (power_on (\<lambda>l. GPIO_PIN_RESET)))) SSD1306_CS_Pin = GPIO_PIN_SET \<and>
   pins (snd (SSD1306sendData (env_failing_at 0 HAL_TIMEOUT) (Some [1, 2, 3]) 3
            (power_on (\<lambda>l. GPIO_PIN_RESET)))) SSD1306_CS_Pin = GPIO_PIN_SET"
proof -
  have a: "(2 :: uint8_t) \<le> MAX_PARAMETERS" by (simp add: MAX_PARAMETERS_def)
  have b: "Some [1, 2, 3 :: uint8_t] \<noteq> None \<and> (3 :: uint16_t) \<noteq> 0 \<and> unat (3 :: uint16_t) \<le> MAX_DATA_SIZE"
    by (simp add: MAX_DATA_SIZE_def)
  from transfers_leave_chip_select_deasserted
    [of 2 "env_failing_at 0 HAL_TIMEOUT" PAGE_ADDRESS "Some [0, 31]" "power_on (\<lambda>l. GPIO_PIN_RESET)"
        "Some [1, 2, 3]" 3] a b
  show ?thesis by blast
qed

text \<open>
  When a transfer of the COLUMN_ADDRESS command fails, the printing tick returns an
  error, goes back to the idle state with CS deasserted and launches no DMA.
\<close>

theorem column_address_failure_is_reported:
  assumes rng: "fle MIN_ANGLE_DEG (nextAngle d)" "fle (nextAngle d) MAX_ANGLE_DEG"
    and len: "length (screenBuffer d) = MAX_DATA_SIZE"
    and st: "state d = ST_PRINTING_ANGLE"
    and failed: "hal_status e (hal_calls d) \<noteq> HAL_OK \<or> hal_status e (Suc (hal_calls d)) \<noteq> HAL_OK"
  shows "\<exists>r d'. SSD1306update e d = Some (r, d') \<and> IS_ERROR r \<and> state d' = ST_IDLE \<and>
     pins d' SSD1306_CS_Pin = GPIO_PIN_SET \<and>
     (\<forall>buf n s. SPI_Transmit_DMA buf n s \<notin> set (drop (length (trace d)) (trace d')))"
  using failed
  unfolding update_printing [OF st] stPrintingAngle_outcome [OF rng len]
  by (auto simp: Let_def command_events_def)

theorem column_address_failure_is_reported_witness:
  "\<exists>d'. SSD1306update (env_failing_at 1 HAL_TIMEOUT) (requested (float_literal 123 10) 2 10) =
           Some (Failure ERR_ERROR [(PRINTING_ANGLE, 1), (SEND_CMD, 3)] (Some HAL_TIMEOUT), d') \<and>
     state d' = ST_IDLE \<and> pins d' SSD1306_CS_Pin = GPIO_PIN_SET"
proof -
  note f = requested_fields [OF in_range_12_3, of 2 10]
  have rng: "fle MIN_ANGLE_DEG (nextAngle (requested (float_literal 123 10) 2 10))"
    "fle (nextAngle (requested (float_literal 123 10) 2 10)) MAX_ANGLE_DEG"
    by (simp_all add: f in_range_12_3)
  have failed: "hal_status (env_failing_at 1 HAL_TIMEOUT) (hal_calls (requested (float_literal 123 10) 2 10)) \<noteq> HAL_OK \<or>
    hal_status (env_failing_at 1 HAL_TIMEOUT) (Suc (hal_calls (requested (float_literal 123 10) 2 10))) \<noteq> HAL_OK"
    by (simp add: f env_failing_at_def)
  from column_address_failure_is_reported [OF rng f(9) f(4) failed]
  obtain r d' where u: "SSD1306update (env_failing_at 1 HAL_TIMEOUT) (requested (float_literal 123 10) 2 10) = Some (r, d')"
    and i: "state d' = ST_IDLE" and p: "pins d' SSD1306_CS_Pin = GPIO_PIN_SET"
    by blast
  have "r = Failure ERR_ERROR [(PRINTING_ANGLE, 1), (SEND_CMD, 3)] (Some HAL_TIMEOUT)"
    using u unfolding update_printing [OF f(4)] stPrintingAngle_outcome [OF rng f(9)]
    by (simp add: f env_failing_at_def Let_def)
  with u i p show ?thesis by blast
qed

text \<open>
  In the waiting state, before the deadline, a tick that finds the peripheral ready
  deasserts CS, returns success and goes back to the idle state.
\<close>

theorem waiting_completes_when_ready:
  assumes "state d = ST_WAITING_FOR_TX_DONE" and "screenTimer_ms d \<noteq> 0"
    and "spi_state e (state_polls d) = HAL_SPI_STATE_READY"
  shows "\<exists>d'. SSD1306update e d = Some (ERR_SUCCESS, d') \<and> state d' = ST_IDLE \<and>
     pins d' SSD1306_CS_Pin = GPIO_PIN_SET \<and>
     trace d' = trace d @ [GPIO_Write SSD1306_CS_Pin GPIO_PIN_SET]"
  using assms by (simp add: SSD1306update_def stWaitingForTXdone_def hal_defs)

theorem waiting_completes_when_ready_witness:
  "\<exists>d1 d2. SSD1306update env_ok (requested (float_literal 123 10) 2 10) = Some (ERR_SUCCESS, d1) \<and>
     SSD1306update (env_ok\<lparr>spi_state := (\<lambda>n. HAL_SPI_STATE_READY)\<rparr>) d1 = Some (ERR_SUCCESS, d2) \<and>
     state d2 = ST_IDLE \<and> pins d2 SSD1306_CS_Pin = GPIO_PIN_SET"
proof -
  note f = requested_fields [OF in_range_12_3, of 2 10]
  have rng: "fle MIN_ANGLE_DEG (nextAngle (requested (float_literal 123 10) 2 10))"
    "fle (nextAngle (requested (float_literal 123 10) 2 10)) MAX_ANGLE_DEG"
    by (simp_all add: f in_range_12_3)
  have ok: "\<forall>n. hal_status env_ok n = HAL_OK" by (simp add: env_ok_def)
  from launch_ok [OF rng f(9) f(4) ok]
  obtain d1 where l: "SSD1306update env_ok (requested (float_literal 123 10) 2 10) = Some (ERR_SUCCESS, d1)"
    and w: "state d1 = ST_WAITING_FOR_TX_DONE"
    by blast
  from launched_deadline [OF rng f(9) f(4) l w] have "screenTimer_ms d1 = 10" by blast
  then have nz: "screenTimer_ms d1 \<noteq> 0" by simp
  have rdy: "spi_state (env_ok\<lparr>spi_state := (\<lambda>n. HAL_SPI_STATE_READY)\<rparr>) (state_polls d1) = HAL_SPI_STATE_READY"
    by simp
  from waiting_completes_when_ready [OF w nz rdy] l show ?thesis by blast
qed

end
